theory Spec2Isabelle
  imports Complex_Main "HOL-Library.AList"
begin

section \<open>Python strings\<close>

text \<open>
  A Python \<open>str\<close> is modelled as a \<open>string\<close> whose characters are the code points
  0 to 255. The texts the program parses (UniProt flat files) are ASCII. The functions
  below follow the methods of \<open>str\<close> that the source calls.
\<close>

text \<open>\<open>str.isspace\<close> on one code point below 256: tab to carriage return, the four
  separators 0x1C to 0x1F, the space, NEL (0x85) and the no-break space (0xA0).\<close>

definition is_space :: "char \<Rightarrow> bool" where
  "is_space c =
     (let n = (of_char c :: nat)
      in (9 \<le> n \<and> n \<le> 13) \<or> (28 \<le> n \<and> n \<le> 32) \<or> n = 133 \<or> n = 160)"

text \<open>\<open>s.startswith(p)\<close>.\<close>

definition startswith :: "string \<Rightarrow> string \<Rightarrow> bool" where
  "startswith p s = (take (length p) s = p)"

text \<open>\<open>s.split()\<close>: the maximal runs of non-whitespace characters, in order.
  The first argument is the token being read.\<close>

fun split_ws_aux :: "string \<Rightarrow> string \<Rightarrow> string list" where
  "split_ws_aux cur [] = (if cur = [] then [] else [cur])"
| "split_ws_aux cur (c # cs) =
     (if is_space c
      then (if cur = [] then split_ws_aux [] cs else cur # split_ws_aux [] cs)
      else split_ws_aux (cur @ [c]) cs)"

definition py_split_ws :: "string \<Rightarrow> string list" where
  "py_split_ws s = split_ws_aux [] s"

text \<open>\<open>s.split(sep)\<close> for a non-empty separator: the pieces between the
  non-overlapping occurrences of \<open>sep\<close>, found from the left. Every separator in the
  source is a non-empty literal (Python raises \<open>ValueError\<close> on an empty one; here an
  empty separator never matches).\<close>

fun split_sep_aux :: "string \<Rightarrow> string \<Rightarrow> string \<Rightarrow> string list" where
  "split_sep_aux sep cur [] = [cur]"
| "split_sep_aux sep cur (c # cs) =
     (if sep \<noteq> [] \<and> startswith sep (c # cs)
      then cur # split_sep_aux sep [] (drop (length sep - 1) cs)
      else split_sep_aux sep (cur @ [c]) cs)"

definition py_split :: "string \<Rightarrow> string \<Rightarrow> string list" where
  "py_split sep s = split_sep_aux sep [] s"

text \<open>\<open>s.strip()\<close>.\<close>

definition py_strip :: "string \<Rightarrow> string" where
  "py_strip s = rev (dropWhile is_space (rev (dropWhile is_space s)))"

text \<open>\<open>sep.join(xs)\<close>.\<close>

fun py_join :: "string \<Rightarrow> string list \<Rightarrow> string" where
  "py_join sep [] = []"
| "py_join sep [x] = x"
| "py_join sep (x # y # ys) = x @ sep @ py_join sep (y # ys)"

text \<open>\<open>s.splitlines()\<close>: a line ends at \<open>\n\<close>, \<open>\r\<close>, \<open>\r\n\<close>, \<open>\v\<close>, \<open>\f\<close>,
  0x1C, 0x1D, 0x1E or 0x85; the line ends are dropped, and a text that ends with a line
  end has no empty last line.\<close>

definition is_linebreak :: "char \<Rightarrow> bool" where
  "is_linebreak c =
     (let n = (of_char c :: nat)
      in (10 \<le> n \<and> n \<le> 13) \<or> (28 \<le> n \<and> n \<le> 30) \<or> n = 133)"

fun splitlines_aux :: "string \<Rightarrow> string \<Rightarrow> string list" where
  "splitlines_aux cur [] = (if cur = [] then [] else [cur])"
| "splitlines_aux cur [c] =
     (if is_linebreak c then [cur] else [cur @ [c]])"
| "splitlines_aux cur (c # d # cs) =
     (if c = CHR 0x0D \<and> d = CHR 0x0A then cur # splitlines_aux [] cs
      else if is_linebreak c then cur # splitlines_aux [] (d # cs)
      else splitlines_aux (cur @ [c]) (d # cs))"

definition py_splitlines :: "string \<Rightarrow> string list" where
  "py_splitlines s = splitlines_aux [] s"

section \<open>Python values and exceptions\<close>

datatype py_error =
  IndexError | ValueError | TypeError | AttributeError | JSONDecodeError

text \<open>The values the program handles: what it stores in its dictionaries and what
  \<open>response.json()\<close> returns. A dictionary is an association list with distinct keys in
  insertion order. A float is given by its exact value.\<close>

datatype pyval =
    PNone
  | PBool bool
  | PInt int
  | PFloat rat
  | PStr string
  | PList "pyval list"
  | PDict "(string \<times> pyval) list"

type_synonym pdict = "(string \<times> pyval) list"

text \<open>Truth value testing, as \<open>if x:\<close> does it.\<close>

fun py_truthy :: "pyval \<Rightarrow> bool" where
  "py_truthy PNone = False"
| "py_truthy (PBool b) = b"
| "py_truthy (PInt i) = (i \<noteq> 0)"
| "py_truthy (PFloat q) = (q \<noteq> 0)"
| "py_truthy (PStr s) = (s \<noteq> [])"
| "py_truthy (PList xs) = (xs \<noteq> [])"
| "py_truthy (PDict kvs) = (kvs \<noteq> [])"

text \<open>\<open>for x in v\<close>: the elements of a list, the characters of a string, the keys of a
  dictionary; the other values are not iterable.\<close>

fun py_iter :: "pyval \<Rightarrow> py_error + pyval list" where
  "py_iter (PList xs) = Inr xs"
| "py_iter (PStr s) = Inr (map (\<lambda>c. PStr [c]) s)"
| "py_iter (PDict kvs) = Inr (map (\<lambda>kv. PStr (fst kv)) kvs)"
| "py_iter v = Inl TypeError"

text \<open>\<open>d[k] = v\<close>, \<open>k in d\<close>, \<open>d.get(k, default)\<close> and \<open>d.get(k)\<close>.\<close>

definition dict_set :: "string \<Rightarrow> pyval \<Rightarrow> pdict \<Rightarrow> pdict" where
  "dict_set k v d = AList.update k v d"

definition dict_has :: "pdict \<Rightarrow> string \<Rightarrow> bool" where
  "dict_has d k = (map_of d k \<noteq> None)"

definition dict_get_default :: "pdict \<Rightarrow> string \<Rightarrow> pyval \<Rightarrow> pyval" where
  "dict_get_default d k dflt = (case map_of d k of None \<Rightarrow> dflt | Some v \<Rightarrow> v)"

definition dict_get :: "pdict \<Rightarrow> string \<Rightarrow> pyval" where
  "dict_get d k = dict_get_default d k PNone"

definition dict_keys :: "pdict \<Rightarrow> string list" where
  "dict_keys d = map fst d"

text \<open>\<open>xs[i]\<close> for \<open>i \<ge> 0\<close> and \<open>xs[-1]\<close>: out of range raises \<open>IndexError\<close>.\<close>

definition py_index :: "'a list \<Rightarrow> nat \<Rightarrow> py_error + 'a" where
  "py_index xs i = (if i < length xs then Inr (xs ! i) else Inl IndexError)"

definition py_last :: "'a list \<Rightarrow> py_error + 'a" where
  "py_last xs = (if xs = [] then Inl IndexError else Inr (last xs))"

text \<open>Sequencing of steps that may raise.\<close>

definition err_bind :: "py_error + 'a \<Rightarrow> ('a \<Rightarrow> py_error + 'b) \<Rightarrow> py_error + 'b" where
  "err_bind m f = (case m of Inl e \<Rightarrow> Inl e | Inr a \<Rightarrow> f a)"

text \<open>\<open>int(s)\<close> in base 10: surrounding whitespace is dropped, then an optional sign,
  then decimal digits with single underscores allowed between digits; anything else
  raises \<open>ValueError\<close>, and so does a text of more than 4300 digits (the default of
  \<open>sys.int_max_str_digits\<close>, from CPython 3.11).\<close>

definition is_digit :: "char \<Rightarrow> bool" where
  "is_digit c = (let n = (of_char c :: nat) in 48 \<le> n \<and> n \<le> 57)"

definition digit_val :: "char \<Rightarrow> int" where
  "digit_val c = int (of_char c :: nat) - 48"

fun digits_ok :: "string \<Rightarrow> bool" where
  "digits_ok [] = False"
| "digits_ok [c] = is_digit c"
| "digits_ok (c # d # cs) =
     (is_digit c \<and> (if d = CHR ''_'' then digits_ok cs else digits_ok (d # cs)))"

definition digits_val :: "string \<Rightarrow> int" where
  "digits_val s = foldl (\<lambda>acc c. 10 * acc + digit_val c) 0 (filter is_digit s)"

definition py_int :: "string \<Rightarrow> py_error + int" where
  "py_int s =
     (let t = py_strip s;
          neg = (t \<noteq> [] \<and> hd t = CHR ''-'');
          body = (if t \<noteq> [] \<and> (hd t = CHR ''-'' \<or> hd t = CHR ''+'') then tl t else t)
      in if digits_ok body \<and> length (filter is_digit body) \<le> 4300
         then Inr (if neg then - digits_val body else digits_val body)
         else Inl ValueError)"

section \<open>The record field extractor\<close>

text \<open>The two source files are the two variants of the program; \<open>get_protein_data\<close>
  of the second (\<open>app.py\<close>) has the branches of the first (\<open>ASG01.py\<close>) and two more.\<close>

datatype variant = ASG01 | App

text \<open>The body of the loop \<open>for i, line in enumerate(lines)\<close>: \<open>rest\<close> is
  \<open>lines[i+1:]\<close>, so that \<open>i + 1 < len(lines)\<close> is \<open>rest \<noteq> []\<close> and \<open>lines[i + 1]\<close> is
  \<open>hd rest\<close>.\<close>

definition process_line :: "variant \<Rightarrow> pdict \<Rightarrow> string \<Rightarrow> string list \<Rightarrow> py_error + pdict" where
  "process_line v protein_data line rest =
     (if startswith ''ID'' line then
        (let fields = py_split_ws line
         in Inr (dict_set ''Name''
                  (PStr (if length fields \<ge> 2 then py_join '' '' (drop 1 fields)
                         else ''Not available'')) protein_data))
      else if startswith ''SQ'' line \<and> rest \<noteq> [] then
        (let weight_line = hd rest
         in err_bind (py_last (py_split_ws weight_line)) (\<lambda>weight.
            Inr (dict_set ''Weight'' (PStr weight) protein_data)))
      else if startswith ''DE   RecName: Full='' line then
        err_bind (py_index (py_split ''Full='' line) 1) (\<lambda>after.
        err_bind (py_index (py_split '';'' after) 0) (\<lambda>function.
          Inr (dict_set ''Function'' (PStr function) protein_data)))
      else if startswith ''DR   SUPFAM'' line then
        err_bind (py_index (py_split '';'' line) 1) (\<lambda>structure.
          Inr (dict_set ''Structure'' (PStr structure) protein_data))
      else if startswith ''FT   MOD_RES'' line then
        (let parts = py_split_ws line
         in err_bind
              (if length parts \<ge> 3
               then err_bind (py_int (parts ! 2)) (\<lambda>n.
                      Inr (dict_set ''Length'' (PInt n) protein_data))
               else Inr protein_data) (\<lambda>protein_data.
            let ptms = drop 1 (py_split '';'' line)
            in Inr (if ptms \<noteq> []
                    then dict_set ''PTMs'' (PList (map (\<lambda>ptm. PStr (py_strip ptm)) ptms))
                           protein_data
                    else protein_data)))
      else if startswith ''CC   -!- SUBCELLULAR LOCATION:'' line then
        err_bind (py_index (py_split ''CC   -!- SUBCELLULAR LOCATION:'' line) 1)
          (\<lambda>after.
          Inr (dict_set ''Subcellular Location'' (PStr (py_strip after)) protein_data))
      else if startswith ''DR   Reactome'' line then
        err_bind (py_index (py_split '';'' line) 1) (\<lambda>pathway.
          Inr (dict_set ''Pathway'' (PStr pathway) protein_data))
      else if startswith ''DR   MIM'' line then
        err_bind (py_index (py_split '';'' line) 1) (\<lambda>disease.
          Inr (dict_set ''Disease'' (PStr disease) protein_data))
      else if v = App \<and> startswith ''DR   PDB'' line then
        err_bind (py_index (py_split '';'' line) 1) (\<lambda>pdb_id.
          Inr (dict_set ''PDB_ID'' (PStr (py_strip pdb_id)) protein_data))
      else if v = App \<and> startswith ''DR   AlphaFoldDB'' line then
        err_bind (py_index (py_split '';'' line) 1) (\<lambda>af_id.
          Inr (dict_set ''AlphaFold_ID'' (PStr (py_strip af_id)) protein_data))
      else Inr protein_data)"

text \<open>The loop over the lines: an exception ends it.\<close>

fun scan_lines :: "variant \<Rightarrow> pdict \<Rightarrow> string list \<Rightarrow> py_error + pdict" where
  "scan_lines v protein_data [] = Inr protein_data"
| "scan_lines v protein_data (line # rest) =
     (case process_line v protein_data line rest of
        Inl e \<Rightarrow> Inl e
      | Inr protein_data' \<Rightarrow> scan_lines v protein_data' rest)"

section \<open>Requests and the user interface\<close>

text \<open>An f-string is kept as its parts, the literal text and the interpolated values;
  how \<open>str()\<close> renders a value is not modelled.\<close>

datatype fpart = Lit string | Val pyval

type_synonym fstring = "fpart list"

text \<open>What the program reads of a \<open>requests\<close> response: \<open>resp_json\<close> is the result of
  \<open>response.json()\<close>, \<open>None\<close> when the body is not JSON. The remote services are a
  function from the URL to the response (transport failures are not modelled).\<close>

record response =
  status_code :: int
  resp_text :: string
  resp_json :: "pyval option"

type_synonym http = "fstring \<Rightarrow> response"

type_synonym edges = "(pyval \<times> pyval) list"

text \<open>What a trigger cycle does that can be observed: the requests it sends and the
  Streamlit calls it makes, in order. \<open>StPyplot\<close> is the figure drawn by the graph
  library from the edge list, \<open>StMarkdown\<close> the caption with the node and edge counts
  of that graph, \<open>StViewer\<close> the 3D viewer built from the text of a structure file.
  The page titles are given without their leading pictograph.\<close>

datatype event =
    HttpGet fstring
  | StTitle string
  | StTextInput string
  | StButton string
  | StError string
  | StWarning string
  | StSubheader string
  | StWrite fstring
  | StPyplot edges
  | StMarkdown edges
  | StViewer string

text \<open>A computation: the events so far and either the exception that ended it or
  its result.\<close>

type_synonym 'a eff = "event list \<times> (py_error + 'a)"

definition eff_bind :: "'a eff \<Rightarrow> ('a \<Rightarrow> 'b eff) \<Rightarrow> 'b eff" where
  "eff_bind m f =
     (case snd m of
        Inl e \<Rightarrow> (fst m, Inl e)
      | Inr a \<Rightarrow> (fst m @ fst (f a), snd (f a)))"

definition eff_then :: "'a eff \<Rightarrow> 'b eff \<Rightarrow> 'b eff" where
  "eff_then m n = eff_bind m (\<lambda>_. n)"

definition emit :: "event list \<Rightarrow> unit eff" where
  "emit es = (es, Inr ())"

definition eff_lift :: "py_error + 'a \<Rightarrow> 'a eff" where
  "eff_lift r = ([], r)"

definition eff_return :: "'a \<Rightarrow> 'a eff" where
  "eff_return x = ([], Inr x)"

subsection \<open>The URLs\<close>

definition uniprot_url :: "string \<Rightarrow> fstring" where
  "uniprot_url uniprot_id =
     [Lit ''https://www.uniprot.org/uniprot/'', Val (PStr uniprot_id), Lit ''.txt'']"

definition string_db_url :: "string \<Rightarrow> int \<Rightarrow> fstring" where
  "string_db_url uniprot_id species =
     [Lit ''https://string-db.org/api/json/network?identifiers='', Val (PStr uniprot_id),
      Lit ''&species='', Val (PInt species)]"

definition rcsb_url :: "pyval \<Rightarrow> fstring" where
  "rcsb_url pdb_id = [Lit ''https://files.rcsb.org/download/'', Val pdb_id, Lit ''.pdb'']"

definition alphafold_url :: "pyval \<Rightarrow> fstring" where
  "alphafold_url af_id =
     [Lit ''https://alphafold.ebi.ac.uk/files/AF-'', Val af_id, Lit ''-F1-model_v4.pdb'']"

subsection \<open>\<open>get_protein_data\<close>\<close>

definition get_protein_data :: "variant \<Rightarrow> http \<Rightarrow> string \<Rightarrow> pdict eff" where
  "get_protein_data v http uniprot_id =
     (let url = uniprot_url uniprot_id;
          response = http url
      in if status_code response \<noteq> 200
         then ([HttpGet url, StError ''Invalid UniProt ID or unable to fetch data.''], Inr [])
         else ([HttpGet url],
               scan_lines v [(''ID'', PStr uniprot_id)] (py_splitlines (resp_text response))))"

subsection \<open>\<open>display_protein_characteristics\<close>\<close>

definition display_protein_characteristics :: "pdict \<Rightarrow> unit eff" where
  "display_protein_characteristics protein_data =
     eff_then
       (emit
          ([StSubheader ''Protein Characteristics'',
            StWrite [Lit ''**UniProt ID:** '',
                     Val (dict_get_default protein_data ''ID'' (PStr ''N/A''))],
            StWrite [Lit ''**Name:** '',
                     Val (dict_get_default protein_data ''Name'' (PStr ''N/A''))],
            StWrite [Lit ''**Length:** '',
                     Val (dict_get_default protein_data ''Length'' (PStr ''Not available''))],
            StWrite [Lit ''**Molecular Weight:** '',
                     Val (dict_get_default protein_data ''Weight'' (PStr ''N/A''))],
            StWrite [Lit ''**Function:** '',
                     Val (dict_get_default protein_data ''Function'' (PStr ''N/A''))]]
           @ (if dict_has protein_data ''Structure''
              then [StWrite [Lit ''**Structure:** '', Val (dict_get protein_data ''Structure'')]]
              else [])
           @ (if dict_has protein_data ''Subcellular Location''
              then [StWrite [Lit ''**Subcellular Location:** '',
                             Val (dict_get protein_data ''Subcellular Location'')]]
              else [])))
    (eff_then
       (if dict_has protein_data ''PTMs''
        then eff_then (emit [StWrite [Lit ''**Post-Translational Modifications (PTMs):**'']])
               (eff_bind (eff_lift (py_iter (dict_get protein_data ''PTMs''))) (\<lambda>ptms.
                  emit (map (\<lambda>ptm. StWrite [Lit ''- '', Val ptm]) ptms)))
        else eff_return ())
       (emit
          ((if dict_has protein_data ''Pathway''
            then [StWrite [Lit ''**Pathway Involvement:** '',
                           Val (dict_get protein_data ''Pathway'')]]
            else [])
           @ (if dict_has protein_data ''Disease''
              then [StWrite [Lit ''**Disease Association:** '',
                             Val (dict_get protein_data ''Disease'')]]
              else []))))"

subsection \<open>\<open>get_ppi_network\<close> and \<open>display_ppi_network\<close>\<close>

text \<open>The loop \<open>for entry in data\<close> of the second variant: \<open>entry.get\<close> exists on a
  dictionary only.\<close>

fun ppi_loop :: "edges \<Rightarrow> pyval list \<Rightarrow> py_error + edges" where
  "ppi_loop interactions [] = Inr interactions"
| "ppi_loop interactions (entry # data) =
     (case entry of
        PDict kvs \<Rightarrow>
          (let protein1 = dict_get kvs ''preferredName_A'';
               protein2 = dict_get kvs ''preferredName_B''
           in ppi_loop (if py_truthy protein1 \<and> py_truthy protein2
                        then interactions @ [(protein1, protein2)]
                        else interactions) data)
      | _ \<Rightarrow> Inl AttributeError)"

definition proteins :: "string list" where
  "proteins = [''ProteinA'', ''ProteinB'', ''ProteinC'', ''ProteinD'', ''ProteinE'',
               ''ProteinF'', ''ProteinG'', ''ProteinH'', ''ProteinI'', ''ProteinJ'']"

text \<open>The first variant returns the pairs of a fixed list and sends no request; the
  second asks STRING DB (\<open>species\<close> is 9606 unless the caller gives it).\<close>

definition get_ppi_network :: "variant \<Rightarrow> http \<Rightarrow> string \<Rightarrow> int \<Rightarrow> edges eff" where
  "get_ppi_network v http uniprot_id species =
     (case v of
        ASG01 \<Rightarrow>
          eff_return
            (concat (map (\<lambda>i. map (\<lambda>j. (PStr (proteins ! i), PStr (proteins ! j)))
                                  [i + 1 ..< length proteins])
                         [0 ..< length proteins]))
      | App \<Rightarrow>
          (let url = string_db_url uniprot_id species;
               response = http url
           in if status_code response \<noteq> 200
              then ([HttpGet url, StError ''Failed to fetch PPI data from STRING DB.''], Inr [])
              else eff_then (emit [HttpGet url])
                     (eff_lift
                        (case resp_json response of
                           None \<Rightarrow> Inl JSONDecodeError
                         | Some data \<Rightarrow> err_bind (py_iter data) (ppi_loop [])))))"

text \<open>\<open>G.add_edges_from(interactions)\<close> takes the edges in order and, of each, the first
  endpoint and then the second: an endpoint that cannot be hashed (a list or a
  dictionary) raises \<open>TypeError\<close>, and \<open>None\<close> is refused as a node with \<open>ValueError\<close>.\<close>

fun node_error :: "pyval \<Rightarrow> py_error option" where
  "node_error (PList xs) = Some TypeError"
| "node_error (PDict kvs) = Some TypeError"
| "node_error PNone = Some ValueError"
| "node_error v = None"

fun add_edges_error :: "edges \<Rightarrow> py_error option" where
  "add_edges_error [] = None"
| "add_edges_error (edge # interactions) =
     (case node_error (fst edge) of
        Some e \<Rightarrow> Some e
      | None \<Rightarrow>
          (case node_error (snd edge) of
             Some e \<Rightarrow> Some e
           | None \<Rightarrow> add_edges_error interactions))"

definition display_ppi_network :: "variant \<Rightarrow> edges \<Rightarrow> unit eff" where
  "display_ppi_network v interactions =
     eff_then (emit [StSubheader ''Protein-Protein Interaction Network''])
       (case v of
          ASG01 \<Rightarrow>
            (case add_edges_error interactions of
               Some e \<Rightarrow> eff_lift (Inl e)
             | None \<Rightarrow> emit [StPyplot interactions])
        | App \<Rightarrow>
            (if interactions = []
             then emit [StWarning ''No interactions found for this protein in STRING DB.'']
             else (case add_edges_error interactions of
                     Some e \<Rightarrow> eff_lift (Inl e)
                   | None \<Rightarrow> emit [StPyplot interactions, StMarkdown interactions])))"

subsection \<open>\<open>display_structure\<close> (second variant)\<close>

definition display_structure :: "http \<Rightarrow> pdict \<Rightarrow> unit eff" where
  "display_structure http protein_data =
     (let pdb_id = dict_get protein_data ''PDB_ID'';
          af_id = dict_get protein_data ''AlphaFold_ID''
      in if py_truthy pdb_id then
           (let pdb_url = rcsb_url pdb_id;
                pdb_data = resp_text (http pdb_url)
            in emit [StSubheader ''3D Structure Viewer'',
                     StWrite [Lit ''Showing PDB structure: **'', Val pdb_id, Lit ''**''],
                     HttpGet pdb_url, StViewer pdb_data])
         else if py_truthy af_id then
           (let pdb_url = alphafold_url af_id;
                pdb_data = resp_text (http pdb_url)
            in emit [StSubheader ''3D Structure Viewer'',
                     StWrite [Lit ''Showing AlphaFold predicted structure for UniProt ID: **'',
                              Val af_id, Lit ''**''],
                     HttpGet pdb_url, StViewer pdb_data])
         else
           emit [StSubheader ''3D Structure Viewer'',
                 StWarning ''No PDB or AlphaFold structure available for this protein.''])"

subsection \<open>\<open>main\<close>: one trigger cycle\<close>

text \<open>\<open>uniprot_id\<close> is the content of the text input and \<open>pressed\<close> tells whether
  the button was pressed.\<close>

definition page_title :: "variant \<Rightarrow> string" where
  "page_title v =
     (case v of
        ASG01 \<Rightarrow> ''Protein Data Retrieval and Analysis''
      | App \<Rightarrow> ''Protein Data Retrieval, Interaction Network & 3D Structure'')"

definition main :: "variant \<Rightarrow> http \<Rightarrow> string \<Rightarrow> bool \<Rightarrow> unit eff" where
  "main v http uniprot_id pressed =
     eff_then
       (emit [StTitle (page_title v),
              StTextInput ''Enter UniProt ID (e.g., P69905 for Hemoglobin alpha):'',
              StButton ''Retrieve Data''])
       (if pressed then
          (if uniprot_id \<noteq> [] then
             eff_bind (get_protein_data v http uniprot_id) (\<lambda>protein_data.
               if protein_data \<noteq> [] then
                 eff_then (display_protein_characteristics protein_data)
                   (eff_bind (get_ppi_network v http uniprot_id 9606) (\<lambda>ppi_network.
                      eff_then (display_ppi_network v ppi_network)
                        (case v of
                           ASG01 \<Rightarrow> eff_return ()
                         | App \<Rightarrow> display_structure http protein_data)))
               else eff_return ())
           else eff_return ())
        else eff_return ())"

section \<open>Notions used in the statements\<close>

text \<open>The extraction rules of the loop: the key a rule stores and the line prefix it
  tests, in the order of the source. The last two are in the second variant only.\<close>

definition field_rules :: "variant \<Rightarrow> (string \<times> string) list" where
  "field_rules v =
     [(''Name'', ''ID''),
      (''Weight'', ''SQ''),
      (''Function'', ''DE   RecName: Full=''),
      (''Structure'', ''DR   SUPFAM''),
      (''Length'', ''FT   MOD_RES''),
      (''PTMs'', ''FT   MOD_RES''),
      (''Subcellular Location'', ''CC   -!- SUBCELLULAR LOCATION:''),
      (''Pathway'', ''DR   Reactome''),
      (''Disease'', ''DR   MIM'')]
     @ (if v = App
        then [(''PDB_ID'', ''DR   PDB''), (''AlphaFold_ID'', ''DR   AlphaFoldDB'')]
        else [])"

text \<open>A line matches a recognized prefix.\<close>

definition recognized :: "variant \<Rightarrow> string \<Rightarrow> bool" where
  "recognized v line = list_ex (\<lambda>kp. startswith (snd kp) line) (field_rules v)"

text \<open>The rule of key \<open>k\<close> fires on \<open>line\<close>, followed by the lines \<open>rest\<close>: the line has
  the prefix of the rule and, for the three guarded rules, passes the guard.\<close>

definition fires :: "variant \<Rightarrow> string \<Rightarrow> string \<Rightarrow> string list \<Rightarrow> bool" where
  "fires v k line rest =
     (list_ex (\<lambda>kp. fst kp = k \<and> startswith (snd kp) line) (field_rules v)
      \<and> (k = ''Weight'' \<longrightarrow> rest \<noteq> [])
      \<and> (k = ''Length'' \<longrightarrow> length (py_split_ws line) \<ge> 3)
      \<and> (k = ''PTMs'' \<longrightarrow> CHR '';'' \<in> set line))"

text \<open>The prefixes of the rules that take the second \<open>;\<close>-delimited field by index.\<close>

definition indexed_prefixes :: "variant \<Rightarrow> string list" where
  "indexed_prefixes v =
     [''DR   SUPFAM'', ''DR   Reactome'', ''DR   MIM'']
     @ (if v = App then [''DR   PDB'', ''DR   AlphaFoldDB''] else [])"

text \<open>The loop over the lines \<open>pre\<close> when the lines \<open>ys\<close> follow them: the record with which
  the loop reaches \<open>ys\<close>, or the exception a line of \<open>pre\<close> raised.\<close>

fun scan_before :: "variant \<Rightarrow> pdict \<Rightarrow> string list \<Rightarrow> string list \<Rightarrow> py_error + pdict" where
  "scan_before v protein_data [] ys = Inr protein_data"
| "scan_before v protein_data (line # rest) ys =
     (case process_line v protein_data line (rest @ ys) of
        Inl e \<Rightarrow> Inl e
      | Inr protein_data' \<Rightarrow> scan_before v protein_data' rest ys)"

text \<open>A service that answers every request with the same response.\<close>

definition const_http :: "response \<Rightarrow> http" where
  "const_http r url = r"

text \<open>A text from its lines, each ended by a line feed, and the successful response
  with that text.\<close>

definition unlines :: "string list \<Rightarrow> string" where
  "unlines ls = concat (map (\<lambda>l. l @ [CHR 0x0A]) ls)"

definition ok_response :: "string list \<Rightarrow> response" where
  "ok_response ls = \<lparr>status_code = 200, resp_text = unlines ls, resp_json = None\<rparr>"

text \<open>What the start of a cycle always shows: the title, the input and the button.\<close>

definition page_head :: "variant \<Rightarrow> event list" where
  "page_head v =
     [StTitle (page_title v),
      StTextInput ''Enter UniProt ID (e.g., P69905 for Hemoglobin alpha):'',
      StButton ''Retrieve Data'']"

text \<open>The interaction records of STRING DB carry names: each of the two name fields of
  an entry, when present, holds a string or null.\<close>

definition is_name :: "pyval \<Rightarrow> bool" where
  "is_name x = (case x of PNone \<Rightarrow> True | PStr s \<Rightarrow> True | _ \<Rightarrow> False)"

definition names_are_strings :: "pyval \<Rightarrow> bool" where
  "names_are_strings entry =
     (case entry of
        PDict kvs \<Rightarrow>
          is_name (dict_get kvs ''preferredName_A'') \<and> is_name (dict_get kvs ''preferredName_B'')
      | _ \<Rightarrow> False)"

text \<open>The edge of one entry, in the words of the specification: an edge when both name
  fields are present and non-empty, nothing otherwise.\<close>

definition named_edge :: "pyval \<Rightarrow> edges" where
  "named_edge entry =
     (case entry of
        PDict kvs \<Rightarrow>
          (case (map_of kvs ''preferredName_A'', map_of kvs ''preferredName_B'') of
             (Some (PStr a), Some (PStr b)) \<Rightarrow>
               if a \<noteq> [] \<and> b \<noteq> [] then [(PStr a, PStr b)] else []
           | _ \<Rightarrow> [])
      | _ \<Rightarrow> [])"

section \<open>Lemmas\<close>

subsection \<open>Strings and dictionaries\<close>

lemma startswith_append: "startswith p s \<Longrightarrow> \<exists>r. s = p @ r"
  unfolding startswith_def by (metis append_take_drop_id)

lemma length_split_char:
  "length (split_sep_aux [c] cur s) = Suc (length (filter (\<lambda>x. x = c) s))"
  by (induction s arbitrary: cur) (simp_all add: startswith_def)

lemma split_char_tail_iff: "drop (Suc 0) (py_split [c] s) \<noteq> [] \<longleftrightarrow> c \<in> set s"
proof -
  have "drop (Suc 0) (py_split [c] s) \<noteq> [] \<longleftrightarrow> 1 < length (py_split [c] s)"
    by (simp add: not_le)
  also have "\<dots> \<longleftrightarrow> filter (\<lambda>x. x = c) s \<noteq> []"
    by (simp add: py_split_def length_split_char)
  also have "\<dots> \<longleftrightarrow> c \<in> set s"
    by (auto simp add: filter_empty_conv)
  finally show ?thesis .
qed

lemma split_char_absent: "c \<notin> set s \<Longrightarrow> split_sep_aux [c] cur s = [cur @ s]"
  by (induction s arbitrary: cur) (auto simp add: startswith_def)

lemma map_of_dict_set: "map_of (dict_set k x d) k' = (if k' = k then Some x else map_of d k')"
  by (simp add: dict_set_def update_conv')

lemma err_bind_Inr: "err_bind m f = Inr y \<longleftrightarrow> (\<exists>a. m = Inr a \<and> f a = Inr y)"
  by (cases m) (simp_all add: err_bind_def)

lemma fires_Name: "startswith ''ID'' line \<Longrightarrow> fires v ''Name'' line rest"
  by (simp add: fires_def field_rules_def)
lemma fires_Weight: "startswith ''SQ'' line \<Longrightarrow> rest \<noteq> [] \<Longrightarrow> fires v ''Weight'' line rest"
  by (simp add: fires_def field_rules_def)
lemma fires_Function: "startswith ''DE   RecName: Full='' line \<Longrightarrow> fires v ''Function'' line rest"
  by (simp add: fires_def field_rules_def)
lemma fires_Structure: "startswith ''DR   SUPFAM'' line \<Longrightarrow> fires v ''Structure'' line rest"
  by (simp add: fires_def field_rules_def)
lemma fires_Length:
  "startswith ''FT   MOD_RES'' line \<Longrightarrow> 3 \<le> length (py_split_ws line) \<Longrightarrow> fires v ''Length'' line rest"
  by (simp add: fires_def field_rules_def)
lemma fires_PTMs:
  "startswith ''FT   MOD_RES'' line \<Longrightarrow> CHR '';'' \<in> set line \<Longrightarrow> fires v ''PTMs'' line rest"
  by (simp add: fires_def field_rules_def)
lemma fires_Subcellular:
  "startswith ''CC   -!- SUBCELLULAR LOCATION:'' line \<Longrightarrow> fires v ''Subcellular Location'' line rest"
  by (simp add: fires_def field_rules_def)
lemma fires_Pathway: "startswith ''DR   Reactome'' line \<Longrightarrow> fires v ''Pathway'' line rest"
  by (simp add: fires_def field_rules_def)
lemma fires_Disease: "startswith ''DR   MIM'' line \<Longrightarrow> fires v ''Disease'' line rest"
  by (simp add: fires_def field_rules_def)
lemma fires_PDB_ID: "startswith ''DR   PDB'' line \<Longrightarrow> fires App ''PDB_ID'' line rest"
  by (simp add: fires_def field_rules_def)
lemma fires_AlphaFold_ID: "startswith ''DR   AlphaFoldDB'' line \<Longrightarrow> fires App ''AlphaFold_ID'' line rest"
  by (simp add: fires_def field_rules_def)

lemma effect_step:
  assumes "map_of pd1 k = map_of pd k
           \<or> (fires v k line rest \<and> map_of pd1 k \<noteq> None \<and> map_of pd1 k \<noteq> Some PNone)"
    and "fires v K line rest" and "x \<noteq> PNone"
  shows "map_of (dict_set K x pd1) k = map_of pd k
         \<or> (fires v k line rest \<and> map_of (dict_set K x pd1) k \<noteq> None
            \<and> map_of (dict_set K x pd1) k \<noteq> Some PNone)"
  using assms by (cases "k = K") (simp_all add: map_of_dict_set)

lemma effect_store:
  assumes "fires v K line rest" and "x \<noteq> PNone"
  shows "map_of (dict_set K x pd) k = map_of pd k
         \<or> (fires v k line rest \<and> map_of (dict_set K x pd) k \<noteq> None
            \<and> map_of (dict_set K x pd) k \<noteq> Some PNone)"
  using effect_step [of pd k pd v line rest K x] assms by simp

text \<open>The branches of the loop body, one lemma each.\<close>

lemma branch_c1:
  "startswith ''ID'' line \<Longrightarrow>
   process_line v pd line rest = Inr pd' \<Longrightarrow> \<exists>x. pd' = dict_set ''Name'' (PStr x) pd"
  by (auto simp add: process_line_def Let_def err_bind_Inr)

lemma branch_c2:
  "\<not> (startswith ''ID'' line) \<Longrightarrow> startswith ''SQ'' line \<and> rest \<noteq> [] \<Longrightarrow>
   process_line v pd line rest = Inr pd' \<Longrightarrow> \<exists>x. pd' = dict_set ''Weight'' (PStr x) pd"
  by (auto simp add: process_line_def Let_def err_bind_Inr)

lemma branch_c3:
  "\<not> (startswith ''ID'' line) \<Longrightarrow> \<not> (startswith ''SQ'' line \<and> rest \<noteq> []) \<Longrightarrow> startswith ''DE   RecName: Full='' line \<Longrightarrow>
   process_line v pd line rest = Inr pd' \<Longrightarrow> \<exists>x. pd' = dict_set ''Function'' (PStr x) pd"
  by (auto simp add: process_line_def Let_def err_bind_Inr)

lemma branch_c4:
  "\<not> (startswith ''ID'' line) \<Longrightarrow> \<not> (startswith ''SQ'' line \<and> rest \<noteq> []) \<Longrightarrow> \<not> (startswith ''DE   RecName: Full='' line) \<Longrightarrow> startswith ''DR   SUPFAM'' line \<Longrightarrow>
   process_line v pd line rest = Inr pd' \<Longrightarrow> \<exists>x. pd' = dict_set ''Structure'' (PStr x) pd"
  by (auto simp add: process_line_def Let_def err_bind_Inr)

lemma branch_c5:
  "\<not> (startswith ''ID'' line) \<Longrightarrow> \<not> (startswith ''SQ'' line \<and> rest \<noteq> []) \<Longrightarrow> \<not> (startswith ''DE   RecName: Full='' line) \<Longrightarrow> \<not> (startswith ''DR   SUPFAM'' line) \<Longrightarrow> startswith ''FT   MOD_RES'' line \<Longrightarrow>
   process_line v pd line rest = (let parts = py_split_ws line
         in err_bind
              (if length parts \<ge> 3
               then err_bind (py_int (parts ! 2)) (\<lambda>n.
                      Inr (dict_set ''Length'' (PInt n) pd))
               else Inr pd) (\<lambda>protein_data.
            let ptms = drop 1 (py_split '';'' line)
            in Inr (if ptms \<noteq> []
                    then dict_set ''PTMs'' (PList (map (\<lambda>ptm. PStr (py_strip ptm)) ptms))
                           protein_data
                    else protein_data)))"
  by (auto simp add: process_line_def)

lemma branch_c6:
  "\<not> (startswith ''ID'' line) \<Longrightarrow> \<not> (startswith ''SQ'' line \<and> rest \<noteq> []) \<Longrightarrow> \<not> (startswith ''DE   RecName: Full='' line) \<Longrightarrow> \<not> (startswith ''DR   SUPFAM'' line) \<Longrightarrow> \<not> (startswith ''FT   MOD_RES'' line) \<Longrightarrow> startswith ''CC   -!- SUBCELLULAR LOCATION:'' line \<Longrightarrow>
   process_line v pd line rest = Inr pd' \<Longrightarrow> \<exists>x. pd' = dict_set ''Subcellular Location'' (PStr x) pd"
  by (auto simp add: process_line_def Let_def err_bind_Inr)

lemma branch_c7:
  "\<not> (startswith ''ID'' line) \<Longrightarrow> \<not> (startswith ''SQ'' line \<and> rest \<noteq> []) \<Longrightarrow> \<not> (startswith ''DE   RecName: Full='' line) \<Longrightarrow> \<not> (startswith ''DR   SUPFAM'' line) \<Longrightarrow> \<not> (startswith ''FT   MOD_RES'' line) \<Longrightarrow> \<not> (startswith ''CC   -!- SUBCELLULAR LOCATION:'' line) \<Longrightarrow> startswith ''DR   Reactome'' line \<Longrightarrow>
   process_line v pd line rest = Inr pd' \<Longrightarrow> \<exists>x. pd' = dict_set ''Pathway'' (PStr x) pd"
  by (auto simp add: process_line_def Let_def err_bind_Inr)

lemma branch_c8:
  "\<not> (startswith ''ID'' line) \<Longrightarrow> \<not> (startswith ''SQ'' line \<and> rest \<noteq> []) \<Longrightarrow> \<not> (startswith ''DE   RecName: Full='' line) \<Longrightarrow> \<not> (startswith ''DR   SUPFAM'' line) \<Longrightarrow> \<not> (startswith ''FT   MOD_RES'' line) \<Longrightarrow> \<not> (startswith ''CC   -!- SUBCELLULAR LOCATION:'' line) \<Longrightarrow> \<not> (startswith ''DR   Reactome'' line) \<Longrightarrow> startswith ''DR   MIM'' line \<Longrightarrow>
   process_line v pd line rest = Inr pd' \<Longrightarrow> \<exists>x. pd' = dict_set ''Disease'' (PStr x) pd"
  by (auto simp add: process_line_def Let_def err_bind_Inr)

lemma branch_c9:
  "\<not> (startswith ''ID'' line) \<Longrightarrow> \<not> (startswith ''SQ'' line \<and> rest \<noteq> []) \<Longrightarrow> \<not> (startswith ''DE   RecName: Full='' line) \<Longrightarrow> \<not> (startswith ''DR   SUPFAM'' line) \<Longrightarrow> \<not> (startswith ''FT   MOD_RES'' line) \<Longrightarrow> \<not> (startswith ''CC   -!- SUBCELLULAR LOCATION:'' line) \<Longrightarrow> \<not> (startswith ''DR   Reactome'' line) \<Longrightarrow> \<not> (startswith ''DR   MIM'' line) \<Longrightarrow> v = App \<and> startswith ''DR   PDB'' line \<Longrightarrow>
   process_line v pd line rest = Inr pd' \<Longrightarrow> \<exists>x. pd' = dict_set ''PDB_ID'' (PStr x) pd"
  by (auto simp add: process_line_def Let_def err_bind_Inr)

lemma branch_c10:
  "\<not> (startswith ''ID'' line) \<Longrightarrow> \<not> (startswith ''SQ'' line \<and> rest \<noteq> []) \<Longrightarrow> \<not> (startswith ''DE   RecName: Full='' line) \<Longrightarrow> \<not> (startswith ''DR   SUPFAM'' line) \<Longrightarrow> \<not> (startswith ''FT   MOD_RES'' line) \<Longrightarrow> \<not> (startswith ''CC   -!- SUBCELLULAR LOCATION:'' line) \<Longrightarrow> \<not> (startswith ''DR   Reactome'' line) \<Longrightarrow> \<not> (startswith ''DR   MIM'' line) \<Longrightarrow> \<not> (v = App \<and> startswith ''DR   PDB'' line) \<Longrightarrow> v = App \<and> startswith ''DR   AlphaFoldDB'' line \<Longrightarrow>
   process_line v pd line rest = Inr pd' \<Longrightarrow> \<exists>x. pd' = dict_set ''AlphaFold_ID'' (PStr x) pd"
  by (auto simp add: process_line_def Let_def err_bind_Inr)

lemma branch_none:
  "\<not> (startswith ''ID'' line) \<Longrightarrow> \<not> (startswith ''SQ'' line \<and> rest \<noteq> []) \<Longrightarrow> \<not> (startswith ''DE   RecName: Full='' line) \<Longrightarrow> \<not> (startswith ''DR   SUPFAM'' line) \<Longrightarrow> \<not> (startswith ''FT   MOD_RES'' line) \<Longrightarrow> \<not> (startswith ''CC   -!- SUBCELLULAR LOCATION:'' line) \<Longrightarrow> \<not> (startswith ''DR   Reactome'' line) \<Longrightarrow> \<not> (startswith ''DR   MIM'' line) \<Longrightarrow> \<not> (v = App \<and> startswith ''DR   PDB'' line) \<Longrightarrow> \<not> (v = App \<and> startswith ''DR   AlphaFoldDB'' line) \<Longrightarrow>
   process_line v pd line rest = Inr pd"
  by (auto simp add: process_line_def)


lemma process_line_effect:
  assumes "process_line v pd line rest = Inr pd'"
  shows "map_of pd' k = map_of pd k
         \<or> (fires v k line rest \<and> map_of pd' k \<noteq> None \<and> map_of pd' k \<noteq> Some PNone)"
proof -
  consider
      (c1) "startswith ''ID'' line"
    | (c2) "\<not> startswith ''ID'' line" "startswith ''SQ'' line \<and> rest \<noteq> []"
    | (c3) "\<not> startswith ''ID'' line" "\<not> (startswith ''SQ'' line \<and> rest \<noteq> [])"
           "startswith ''DE   RecName: Full='' line"
    | (c4) "\<not> startswith ''ID'' line" "\<not> (startswith ''SQ'' line \<and> rest \<noteq> [])"
           "\<not> startswith ''DE   RecName: Full='' line" "startswith ''DR   SUPFAM'' line"
    | (c5) "\<not> startswith ''ID'' line" "\<not> (startswith ''SQ'' line \<and> rest \<noteq> [])"
           "\<not> startswith ''DE   RecName: Full='' line" "\<not> startswith ''DR   SUPFAM'' line"
           "startswith ''FT   MOD_RES'' line"
    | (c6) "\<not> startswith ''ID'' line" "\<not> (startswith ''SQ'' line \<and> rest \<noteq> [])"
           "\<not> startswith ''DE   RecName: Full='' line" "\<not> startswith ''DR   SUPFAM'' line"
           "\<not> startswith ''FT   MOD_RES'' line"
    by blast
  then show ?thesis
  proof cases
    case c1
    from branch_c1 [OF c1 assms] obtain x where "pd' = dict_set ''Name'' (PStr x) pd" ..
    then show ?thesis using effect_store [OF fires_Name [OF c1]] by simp
  next
    case c2
    from branch_c2 [OF c2 assms] obtain x where "pd' = dict_set ''Weight'' (PStr x) pd" ..
    moreover from c2 have "fires v ''Weight'' line rest" by (simp add: fires_Weight)
    ultimately show ?thesis using effect_store by simp
  next
    case c3
    from branch_c3 [OF c3 assms] obtain x where "pd' = dict_set ''Function'' (PStr x) pd" ..
    then show ?thesis using effect_store [OF fires_Function [OF c3(3)]] by simp
  next
    case c4
    from branch_c4 [OF c4 assms] obtain x where "pd' = dict_set ''Structure'' (PStr x) pd" ..
    then show ?thesis using effect_store [OF fires_Structure [OF c4(4)]] by simp
  next
    case c5
    from assms branch_c5 [OF c5, of v pd]
    obtain pd1 where
      s1: "(if 3 \<le> length (py_split_ws line)
            then err_bind (py_int (py_split_ws line ! 2))
                   (\<lambda>n. Inr (dict_set ''Length'' (PInt n) pd))
            else Inr pd) = Inr pd1"
      and s2: "pd' = (if drop (Suc 0) (py_split '';'' line) \<noteq> []
                      then dict_set ''PTMs''
                             (PList (map (\<lambda>ptm. PStr (py_strip ptm))
                                (drop (Suc 0) (py_split '';'' line)))) pd1
                      else pd1)"
      by (auto simp add: Let_def err_bind_Inr)
    have e1: "map_of pd1 k = map_of pd k
         \<or> (fires v k line rest \<and> map_of pd1 k \<noteq> None \<and> map_of pd1 k \<noteq> Some PNone)"
    proof (cases "3 \<le> length (py_split_ws line)")
      case True
      with s1 obtain n where "pd1 = dict_set ''Length'' (PInt n) pd"
        by (auto simp add: err_bind_Inr)
      then show ?thesis using effect_store [OF fires_Length [OF c5(5) True]] by simp
    next
      case False
      with s1 show ?thesis by simp
    qed
    show ?thesis
    proof (cases "CHR '';'' \<in> set line")
      case True
      with s2 have "pd' = dict_set ''PTMs''
                             (PList (map (\<lambda>ptm. PStr (py_strip ptm))
                                (drop (Suc 0) (py_split '';'' line)))) pd1"
        by (simp only: split_char_tail_iff if_True)
      then show ?thesis using effect_step [OF e1 fires_PTMs [OF c5(5) True]] by simp
    next
      case False
      with s2 have "pd' = pd1" by (simp only: split_char_tail_iff if_False)
      with e1 show ?thesis by simp
    qed
  next
    case c6
    consider
        (d1) "startswith ''CC   -!- SUBCELLULAR LOCATION:'' line"
      | (d2) "\<not> startswith ''CC   -!- SUBCELLULAR LOCATION:'' line" "startswith ''DR   Reactome'' line"
      | (d3) "\<not> startswith ''CC   -!- SUBCELLULAR LOCATION:'' line" "\<not> startswith ''DR   Reactome'' line"
             "startswith ''DR   MIM'' line"
      | (d4) "\<not> startswith ''CC   -!- SUBCELLULAR LOCATION:'' line" "\<not> startswith ''DR   Reactome'' line"
             "\<not> startswith ''DR   MIM'' line" "v = App \<and> startswith ''DR   PDB'' line"
      | (d5) "\<not> startswith ''CC   -!- SUBCELLULAR LOCATION:'' line" "\<not> startswith ''DR   Reactome'' line"
             "\<not> startswith ''DR   MIM'' line" "\<not> (v = App \<and> startswith ''DR   PDB'' line)"
             "v = App \<and> startswith ''DR   AlphaFoldDB'' line"
      | (d6) "\<not> startswith ''CC   -!- SUBCELLULAR LOCATION:'' line" "\<not> startswith ''DR   Reactome'' line"
             "\<not> startswith ''DR   MIM'' line" "\<not> (v = App \<and> startswith ''DR   PDB'' line)"
             "\<not> (v = App \<and> startswith ''DR   AlphaFoldDB'' line)"
      by blast
    then show ?thesis
    proof cases
      case d1
      from branch_c6 [OF c6 d1 assms]
      obtain x where "pd' = dict_set ''Subcellular Location'' (PStr x) pd" ..
      then show ?thesis using effect_store [OF fires_Subcellular [OF d1]] by simp
    next
      case d2
      from branch_c7 [OF c6 d2 assms] obtain x where "pd' = dict_set ''Pathway'' (PStr x) pd" ..
      then show ?thesis using effect_store [OF fires_Pathway [OF d2(2)]] by simp
    next
      case d3
      from branch_c8 [OF c6 d3 assms] obtain x where "pd' = dict_set ''Disease'' (PStr x) pd" ..
      then show ?thesis using effect_store [OF fires_Disease [OF d3(3)]] by simp
    next
      case d4
      from branch_c9 [OF c6 d4 assms] obtain x where "pd' = dict_set ''PDB_ID'' (PStr x) pd" ..
      moreover from d4 have "fires v ''PDB_ID'' line rest" by (simp add: fires_PDB_ID)
      ultimately show ?thesis using effect_store by simp
    next
      case d5
      from branch_c10 [OF c6 d5 assms]
      obtain x where "pd' = dict_set ''AlphaFold_ID'' (PStr x) pd" ..
      moreover from d5 have "fires v ''AlphaFold_ID'' line rest" by (simp add: fires_AlphaFold_ID)
      ultimately show ?thesis using effect_store by simp
    next
      case d6
      from branch_none [OF c6 d6] assms have "pd' = pd" by simp
      then show ?thesis by simp
    qed
  qed
qed

lemma scan_lines_effect:
  "scan_lines v pd ls = Inr pd' \<Longrightarrow>
   map_of pd' k = map_of pd k
   \<or> ((\<exists>pre l post. ls = pre @ l # post \<and> fires v k l post)
      \<and> map_of pd' k \<noteq> None \<and> map_of pd' k \<noteq> Some PNone)"
proof (induction ls arbitrary: pd)
  case Nil
  then show ?case by simp
next
  case (Cons l rest)
  from Cons.prems obtain pd1 where
    p: "process_line v pd l rest = Inr pd1" and s: "scan_lines v pd1 rest = Inr pd'"
    by (auto split: sum.splits)
  from Cons.IH [OF s] show ?case
  proof
    assume eq: "map_of pd' k = map_of pd1 k"
    from process_line_effect [OF p, of k] show ?thesis
    proof
      assume "map_of pd1 k = map_of pd k"
      with eq show ?thesis by simp
    next
      assume f: "fires v k l rest \<and> map_of pd1 k \<noteq> None \<and> map_of pd1 k \<noteq> Some PNone"
      then have "l # rest = [] @ l # rest \<and> fires v k l rest" by simp
      then have "\<exists>pre m post. l # rest = pre @ m # post \<and> fires v k m post" by blast
      with f eq show ?thesis by simp
    qed
  next
    assume r: "(\<exists>pre m post. rest = pre @ m # post \<and> fires v k m post)
               \<and> map_of pd' k \<noteq> None \<and> map_of pd' k \<noteq> Some PNone"
    then obtain pre m post where "rest = pre @ m # post" and f: "fires v k m post" by blast
    then have "l # rest = (l # pre) @ m # post" by simp
    with f have "\<exists>pre m post. l # rest = pre @ m # post \<and> fires v k m post" by blast
    with r show ?thesis by simp
  qed
qed

lemma scan_lines_split:
  "scan_lines v pd (pre @ l # post) = Inr pd2 \<Longrightarrow>
   \<exists>pd0 pd1. process_line v pd0 l post = Inr pd1 \<and> scan_lines v pd1 post = Inr pd2"
proof (induction pre arbitrary: pd)
  case Nil
  then show ?case by (auto split: sum.splits)
next
  case (Cons a pre)
  then show ?case by (auto split: sum.splits)
qed

lemma scan_lines_append_cases:
  "(\<exists>e. scan_lines v pd (pre @ ys) = Inl e)
   \<or> (\<exists>pd'. scan_lines v pd (pre @ ys) = scan_lines v pd' ys)"
proof (induction pre arbitrary: pd)
  case Nil
  then show ?case by auto
next
  case (Cons a pre)
  show ?case
  proof (cases "process_line v pd a (pre @ ys)")
    case (Inl e)
    then show ?thesis by simp
  next
    case (Inr pd1)
    with Cons.IH [of pd1] show ?thesis by simp
  qed
qed

subsection \<open>The functions of the program\<close>

lemma process_line_unrecognized:
  "\<not> recognized v line \<Longrightarrow> process_line v pd line rest = Inr pd"
  by (cases v) (simp_all add: recognized_def field_rules_def process_line_def)

lemma scan_lines_unrecognized:
  "\<forall>line\<in>set ls. \<not> recognized v line \<Longrightarrow> scan_lines v pd ls = Inr pd"
  by (induction ls) (simp_all add: process_line_unrecognized)

lemma get_protein_data_ok:
  "status_code (http (uniprot_url uid)) = 200 \<Longrightarrow>
   get_protein_data v http uid =
     ([HttpGet (uniprot_url uid)],
      scan_lines v [(''ID'', PStr uid)] (py_splitlines (resp_text (http (uniprot_url uid)))))"
  by (simp add: get_protein_data_def Let_def)

lemma get_protein_data_failed:
  "status_code (http (uniprot_url uid)) \<noteq> 200 \<Longrightarrow>
   get_protein_data v http uid =
     ([HttpGet (uniprot_url uid), StError ''Invalid UniProt ID or unable to fetch data.''], Inr [])"
  by (simp add: get_protein_data_def Let_def)

lemma main_pressed:
  "uid \<noteq> [] \<Longrightarrow> get_protein_data v http uid = (es, r) \<Longrightarrow>
   (r = Inr [] \<or> (\<exists>e. r = Inl e)) \<Longrightarrow>
   main v http uid True = (page_head v @ es, case r of Inl e \<Rightarrow> Inl e | Inr _ \<Rightarrow> Inr ())"
  by (auto simp add: main_def eff_then_def eff_bind_def emit_def eff_return_def page_head_def)

lemma display_structure_cases:
  "display_structure http pd =
     (if py_truthy (dict_get pd ''PDB_ID'')
      then ([StSubheader ''3D Structure Viewer'',
             StWrite [Lit ''Showing PDB structure: **'', Val (dict_get pd ''PDB_ID''), Lit ''**''],
             HttpGet (rcsb_url (dict_get pd ''PDB_ID'')),
             StViewer (resp_text (http (rcsb_url (dict_get pd ''PDB_ID''))))], Inr ())
      else if py_truthy (dict_get pd ''AlphaFold_ID'')
      then ([StSubheader ''3D Structure Viewer'',
             StWrite [Lit ''Showing AlphaFold predicted structure for UniProt ID: **'',
                      Val (dict_get pd ''AlphaFold_ID''), Lit ''**''],
             HttpGet (alphafold_url (dict_get pd ''AlphaFold_ID'')),
             StViewer (resp_text (http (alphafold_url (dict_get pd ''AlphaFold_ID''))))], Inr ())
      else ([StSubheader ''3D Structure Viewer'',
             StWarning ''No PDB or AlphaFold structure available for this protein.''], Inr ()))"
  by (simp add: display_structure_def Let_def emit_def)

lemma fires_Name_iff: "fires v ''Name'' line rest \<longleftrightarrow> startswith ''ID'' line"
  by (cases v) (simp_all add: fires_def field_rules_def)

lemma fires_Weight_iff:
  "fires v ''Weight'' line rest \<longleftrightarrow> startswith ''SQ'' line \<and> rest \<noteq> []"
  by (cases v) (simp_all add: fires_def field_rules_def)

lemma fires_Length_iff:
  "fires v ''Length'' line rest \<longleftrightarrow>
   startswith ''FT   MOD_RES'' line \<and> 3 \<le> length (py_split_ws line)"
  by (cases v) (simp_all add: fires_def field_rules_def)

lemma fires_PTMs_iff:
  "fires v ''PTMs'' line rest \<longleftrightarrow> startswith ''FT   MOD_RES'' line \<and> CHR '';'' \<in> set line"
  by (cases v) (simp_all add: fires_def field_rules_def)

lemma scan_lines_unfired:
  assumes "scan_lines v pd ls = Inr pd'" and "\<forall>l\<in>set ls. \<forall>rest. \<not> fires v k l rest"
  shows "map_of pd' k = map_of pd k"
proof -
  from scan_lines_effect [OF assms(1), of k] show ?thesis
  proof
    assume "map_of pd' k = map_of pd k"
    then show ?thesis .
  next
    assume "(\<exists>pre l post. ls = pre @ l # post \<and> fires v k l post)
            \<and> map_of pd' k \<noteq> None \<and> map_of pd' k \<noteq> Some PNone"
    then obtain pre l post where "ls = pre @ l # post" and "fires v k l post" by blast
    with assms(2) show ?thesis by auto
  qed
qed

lemma not_ID_of_FT:
  "startswith ''FT   MOD_RES'' line \<Longrightarrow>
   \<not> startswith ''ID'' line \<and> \<not> startswith ''SQ'' line
   \<and> \<not> startswith ''DE   RecName: Full='' line \<and> \<not> startswith ''DR   SUPFAM'' line"
proof -
  assume "startswith ''FT   MOD_RES'' line"
  then obtain r where "line = ''FT   MOD_RES'' @ r" by (auto dest: startswith_append)
  then show ?thesis by (simp add: startswith_def)
qed

lemma not_ID_of_SQ: "startswith ''SQ'' line \<Longrightarrow> \<not> startswith ''ID'' line"
proof -
  assume "startswith ''SQ'' line"
  then obtain r where "line = ''SQ'' @ r" by (auto dest: startswith_append)
  then show ?thesis by (simp add: startswith_def)
qed

lemma process_line_ID:
  "startswith ''ID'' line \<Longrightarrow>
   process_line v pd line rest =
     Inr (dict_set ''Name''
            (PStr (if 2 \<le> length (py_split_ws line)
                   then py_join '' '' (drop 1 (py_split_ws line))
                   else ''Not available'')) pd)"
  by (simp add: process_line_def)

lemma process_line_FT:
  assumes "startswith ''FT   MOD_RES'' line" and "process_line v pd line rest = Inr pd'"
  shows "\<exists>pd1.
           (if 3 \<le> length (py_split_ws line)
            then \<exists>n. py_int (py_split_ws line ! 2) = Inr n \<and> pd1 = dict_set ''Length'' (PInt n) pd
            else pd1 = pd)
           \<and> pd' = (if CHR '';'' \<in> set line
                   then dict_set ''PTMs''
                          (PList (map (\<lambda>ptm. PStr (py_strip ptm)) (drop 1 (py_split '';'' line))))
                          pd1
                   else pd1)"
proof -
  from not_ID_of_FT [OF assms(1)] have
    n: "\<not> startswith ''ID'' line" "\<not> (startswith ''SQ'' line \<and> rest \<noteq> [])"
       "\<not> startswith ''DE   RecName: Full='' line" "\<not> startswith ''DR   SUPFAM'' line"
    by simp_all
  from assms(2) branch_c5 [OF n assms(1), of v pd]
  obtain pd1 where
    s1: "(if 3 \<le> length (py_split_ws line)
          then err_bind (py_int (py_split_ws line ! 2))
                 (\<lambda>n. Inr (dict_set ''Length'' (PInt n) pd))
          else Inr pd) = Inr pd1"
    and s2: "pd' = (if drop (Suc 0) (py_split '';'' line) \<noteq> []
                    then dict_set ''PTMs''
                           (PList (map (\<lambda>ptm. PStr (py_strip ptm))
                              (drop (Suc 0) (py_split '';'' line)))) pd1
                    else pd1)"
    by (auto simp add: Let_def err_bind_Inr)
  from s1 have "if 3 \<le> length (py_split_ws line)
            then \<exists>n. py_int (py_split_ws line ! 2) = Inr n \<and> pd1 = dict_set ''Length'' (PInt n) pd
            else pd1 = pd"
    by (auto simp add: err_bind_Inr split: if_splits)
  moreover from s2 have "pd' = (if CHR '';'' \<in> set line
                   then dict_set ''PTMs''
                          (PList (map (\<lambda>ptm. PStr (py_strip ptm)) (drop 1 (py_split '';'' line))))
                          pd1
                   else pd1)"
    by (simp only: split_char_tail_iff One_nat_def)
  ultimately show ?thesis by blast
qed

lemma process_line_FT_PTMs:
  assumes "startswith ''FT   MOD_RES'' line" and "process_line v pd line rest = Inr pd'"
    and "CHR '';'' \<in> set line"
  shows "map_of pd' ''PTMs'' =
           Some (PList (map (\<lambda>ptm. PStr (py_strip ptm)) (drop 1 (py_split '';'' line))))"
  using process_line_FT [OF assms(1,2)] assms(3) by (auto simp add: map_of_dict_set)

lemma process_line_FT_Length:
  assumes "startswith ''FT   MOD_RES'' line" and "process_line v pd line rest = Inr pd'"
    and "3 \<le> length (py_split_ws line)"
  shows "\<exists>n. py_int (py_split_ws line ! 2) = Inr n \<and> map_of pd' ''Length'' = Some (PInt n)"
  using process_line_FT [OF assms(1,2)] assms(3) by (auto simp add: map_of_dict_set)

lemma split_ws_blank: "\<forall>c\<in>set s. is_space c \<Longrightarrow> split_ws_aux [] s = []"
  by (induction s) simp_all

lemma split_ws_aux_Nil_iff:
  "split_ws_aux cur s = [] \<longleftrightarrow> cur = [] \<and> (\<forall>c\<in>set s. is_space c)"
  by (induction s arbitrary: cur) auto

lemma py_split_ws_Nil_iff: "py_split_ws s = [] \<longleftrightarrow> (\<forall>c\<in>set s. is_space c)"
  by (simp add: py_split_ws_def split_ws_aux_Nil_iff)

lemma split_sep_aux_nonempty: "split_sep_aux sep cur s \<noteq> []"
  by (induction s arbitrary: cur) simp_all

lemma process_line_rest_irrelevant:
  "\<not> startswith ''SQ'' line \<Longrightarrow> process_line v pd line rest = process_line v pd line rest'"
  by (simp add: process_line_def)

lemma process_line_SQ_last: "startswith ''SQ'' line \<Longrightarrow> process_line v pd line [] = Inr pd"
proof -
  assume "startswith ''SQ'' line"
  then obtain r where "line = ''SQ'' @ r" by (auto dest: startswith_append)
  then show ?thesis by (simp add: process_line_def startswith_def)
qed

lemma process_line_SQ_blank:
  assumes "startswith ''SQ'' line" and "\<forall>c\<in>set nxt. is_space c"
  shows "process_line v pd line (nxt # post) = Inl IndexError"
proof -
  from assms(1) have "\<not> startswith ''ID'' line" by (rule not_ID_of_SQ)
  with assms show ?thesis
    by (simp add: process_line_def py_split_ws_Nil_iff py_last_def err_bind_def)
qed

lemma scan_lines_snoc_SQ:
  assumes "startswith ''SQ'' l" and "\<forall>m\<in>set pre. \<not> startswith ''SQ'' m"
  shows "scan_lines v pd (pre @ [l]) = scan_lines v pd pre"
  using assms(2)
proof (induction pre arbitrary: pd)
  case Nil
  then show ?case using assms(1) by (simp add: process_line_SQ_last)
next
  case (Cons a pre)
  then have "process_line v pd a (pre @ [l]) = process_line v pd a pre"
    by (simp add: process_line_rest_irrelevant)
  with Cons show ?case by (simp split: sum.splits)
qed

lemma scan_lines_prefix_error:
  assumes "\<And>pd. scan_lines v pd ys = Inl (err pd)"
  shows "\<exists>e. scan_lines v pd (pre @ ys) = Inl e"
  using scan_lines_append_cases [of v pd pre ys] assms by auto

lemma map_of_dict_set_same: "map_of (dict_set k x d) k = Some x"
  by (simp add: map_of_dict_set)

lemma fires_ID_never: "\<not> fires v ''ID'' line rest"
  by (cases v) (simp_all add: fires_def field_rules_def)

lemma dict_keys_iff: "k \<in> set (dict_keys pd) \<longleftrightarrow> map_of pd k \<noteq> None"
  by (simp add: dict_keys_def map_of_eq_None_iff)

lemma snoc_eq_mid:
  assumes "pre @ [l] = a @ m # b" and "b \<noteq> []"
  shows "\<exists>b'. pre = a @ m # b'"
proof -
  from assms(2) obtain b' x where "b = b' @ [x]" by (cases b rule: rev_cases) auto
  with assms(1) have "pre @ [l] = (a @ m # b') @ [x]" by simp
  then have "pre = a @ m # b'" by (simp only: append1_eq_conv)
  then show ?thesis by blast
qed

lemma process_line_DE:
  assumes "startswith ''DE   RecName: Full='' line"
  shows "\<exists>f. process_line v pd line rest = Inr (dict_set ''Function'' (PStr f) pd)"
proof -
  from assms obtain r where l: "line = ''DE   RecName: Full='' @ r"
    by (auto dest: startswith_append)
  have s: "py_split ''Full='' line = ''DE   RecName: '' # split_sep_aux ''Full='' [] r"
    unfolding l by (simp add: py_split_def startswith_def)
  obtain a as where t: "split_sep_aux ''Full='' [] r = a # as"
    using split_sep_aux_nonempty [of "''Full=''" "[]" r] by (cases "split_sep_aux ''Full='' [] r") auto
  obtain b bs where u: "py_split '';'' a = b # bs"
    using split_sep_aux_nonempty [of "'';''" "[]" a]
    by (cases "py_split '';'' a") (auto simp add: py_split_def)
  have n: "\<not> startswith ''ID'' line" "\<not> startswith ''SQ'' line"
    unfolding l by (simp_all add: startswith_def)
  from n assms have "process_line v pd line rest = Inr (dict_set ''Function'' (PStr b) pd)"
    by (simp add: process_line_def s t u py_index_def err_bind_def)
  then show ?thesis by blast
qed

lemma py_index_split_absent:
  "CHR '';'' \<notin> set line \<Longrightarrow> py_index (py_split '';'' line) (Suc 0) = Inl IndexError"
  by (simp add: py_split_def split_char_absent py_index_def)

lemma indexed_prefixes_cases:
  assumes "p \<in> set (indexed_prefixes v)"
  shows "p = ''DR   SUPFAM'' \<or> p = ''DR   Reactome'' \<or> p = ''DR   MIM''
    \<or> (v = App \<and> p = ''DR   PDB'') \<or> (v = App \<and> p = ''DR   AlphaFoldDB'')"
  using assms by (auto simp add: indexed_prefixes_def split: if_splits)

lemma indexed_SUPFAM:
  assumes "startswith ''DR   SUPFAM'' line" and "CHR '';'' \<notin> set line"
  shows "process_line v pd line rest = Inl IndexError"
proof -
  from assms(1) obtain r where l: "line = ''DR   SUPFAM'' @ r" by (auto dest: startswith_append)
  from assms(2) have i: "py_index (py_split '';'' line) (Suc 0) = Inl IndexError"
    by (rule py_index_split_absent)
  have n: "\<not> startswith ''ID'' line
          \<and> \<not> startswith ''SQ'' line
          \<and> \<not> startswith ''DE   RecName: Full='' line"
    unfolding l by (simp add: startswith_def)
  from n assms(1) show ?thesis by (simp add: process_line_def i err_bind_def)
qed

lemma indexed_Reactome:
  assumes "startswith ''DR   Reactome'' line" and "CHR '';'' \<notin> set line"
  shows "process_line v pd line rest = Inl IndexError"
proof -
  from assms(1) obtain r where l: "line = ''DR   Reactome'' @ r" by (auto dest: startswith_append)
  from assms(2) have i: "py_index (py_split '';'' line) (Suc 0) = Inl IndexError"
    by (rule py_index_split_absent)
  have n: "\<not> startswith ''ID'' line
          \<and> \<not> startswith ''SQ'' line
          \<and> \<not> startswith ''DE   RecName: Full='' line
          \<and> \<not> startswith ''DR   SUPFAM'' line
          \<and> \<not> startswith ''FT   MOD_RES'' line
          \<and> \<not> startswith ''CC   -!- SUBCELLULAR LOCATION:'' line"
    unfolding l by (simp add: startswith_def)
  from n assms(1) show ?thesis by (simp add: process_line_def i err_bind_def)
qed

lemma indexed_MIM:
  assumes "startswith ''DR   MIM'' line" and "CHR '';'' \<notin> set line"
  shows "process_line v pd line rest = Inl IndexError"
proof -
  from assms(1) obtain r where l: "line = ''DR   MIM'' @ r" by (auto dest: startswith_append)
  from assms(2) have i: "py_index (py_split '';'' line) (Suc 0) = Inl IndexError"
    by (rule py_index_split_absent)
  have n: "\<not> startswith ''ID'' line
          \<and> \<not> startswith ''SQ'' line
          \<and> \<not> startswith ''DE   RecName: Full='' line
          \<and> \<not> startswith ''DR   SUPFAM'' line
          \<and> \<not> startswith ''FT   MOD_RES'' line
          \<and> \<not> startswith ''CC   -!- SUBCELLULAR LOCATION:'' line
          \<and> \<not> startswith ''DR   Reactome'' line"
    unfolding l by (simp add: startswith_def)
  from n assms(1) show ?thesis by (simp add: process_line_def i err_bind_def)
qed

lemma indexed_PDB:
  assumes "startswith ''DR   PDB'' line" and "CHR '';'' \<notin> set line"
  shows "process_line App pd line rest = Inl IndexError"
proof -
  from assms(1) obtain r where l: "line = ''DR   PDB'' @ r" by (auto dest: startswith_append)
  from assms(2) have i: "py_index (py_split '';'' line) (Suc 0) = Inl IndexError"
    by (rule py_index_split_absent)
  have n: "\<not> startswith ''ID'' line
          \<and> \<not> startswith ''SQ'' line
          \<and> \<not> startswith ''DE   RecName: Full='' line
          \<and> \<not> startswith ''DR   SUPFAM'' line
          \<and> \<not> startswith ''FT   MOD_RES'' line
          \<and> \<not> startswith ''CC   -!- SUBCELLULAR LOCATION:'' line
          \<and> \<not> startswith ''DR   Reactome'' line
          \<and> \<not> startswith ''DR   MIM'' line"
    unfolding l by (simp add: startswith_def)
  from n assms(1) show ?thesis by (simp add: process_line_def i err_bind_def)
qed

lemma indexed_AlphaFoldDB:
  assumes "startswith ''DR   AlphaFoldDB'' line" and "CHR '';'' \<notin> set line"
  shows "process_line App pd line rest = Inl IndexError"
proof -
  from assms(1) obtain r where l: "line = ''DR   AlphaFoldDB'' @ r" by (auto dest: startswith_append)
  from assms(2) have i: "py_index (py_split '';'' line) (Suc 0) = Inl IndexError"
    by (rule py_index_split_absent)
  have n: "\<not> startswith ''ID'' line
          \<and> \<not> startswith ''SQ'' line
          \<and> \<not> startswith ''DE   RecName: Full='' line
          \<and> \<not> startswith ''DR   SUPFAM'' line
          \<and> \<not> startswith ''FT   MOD_RES'' line
          \<and> \<not> startswith ''CC   -!- SUBCELLULAR LOCATION:'' line
          \<and> \<not> startswith ''DR   Reactome'' line
          \<and> \<not> startswith ''DR   MIM'' line
          \<and> \<not> startswith ''DR   PDB'' line"
    unfolding l by (simp add: startswith_def)
  from n assms(1) show ?thesis by (simp add: process_line_def i err_bind_def)
qed

lemma process_line_indexed:
  assumes "p \<in> set (indexed_prefixes v)" and "startswith p line" and "CHR '';'' \<notin> set line"
  shows "process_line v pd line rest = Inl IndexError"
  using indexed_prefixes_cases [OF assms(1)]
proof (elim disjE conjE)
  assume "p = ''DR   SUPFAM''"
  with assms(2,3) show ?thesis by (simp add: indexed_SUPFAM)
next
  assume "p = ''DR   Reactome''"
  with assms(2,3) show ?thesis by (simp add: indexed_Reactome)
next
  assume "p = ''DR   MIM''"
  with assms(2,3) show ?thesis by (simp add: indexed_MIM)
next
  assume "v = App" and "p = ''DR   PDB''"
  with assms(2,3) show ?thesis by (simp add: indexed_PDB)
next
  assume "v = App" and "p = ''DR   AlphaFoldDB''"
  with assms(2,3) show ?thesis by (simp add: indexed_AlphaFoldDB)
qed

lemma ppi_loop_dicts:
  assumes "\<forall>e\<in>set entries. names_are_strings e"
  shows "ppi_loop acc entries = Inr (acc @ concat (map named_edge entries))"
  using assms
proof (induction entries arbitrary: acc)
  case Nil
  then show ?case by simp
next
  case (Cons entry entries)
  from Cons.prems have n: "names_are_strings entry" by simp
  then obtain kvs where e: "entry = PDict kvs"
    by (cases entry) (simp_all add: names_are_strings_def)
  from n e have na: "is_name (dict_get kvs ''preferredName_A'')"
    and nb: "is_name (dict_get kvs ''preferredName_B'')"
    by (simp_all add: names_are_strings_def)
  have step: "(if py_truthy (dict_get kvs ''preferredName_A'')
                  \<and> py_truthy (dict_get kvs ''preferredName_B'')
               then acc @ [(dict_get kvs ''preferredName_A'', dict_get kvs ''preferredName_B'')]
               else acc) = acc @ named_edge entry"
    using na nb unfolding e
    by (auto simp add: named_edge_def is_name_def dict_get_def dict_get_default_def
          split: option.splits pyval.splits)
  from Cons.prems have "\<forall>e\<in>set entries. names_are_strings e" by simp
  from Cons.IH [OF this] step show ?case
    by (simp add: e Let_def)
qed

lemma named_edge_strings:
  "(a, b) \<in> set (named_edge entry) \<Longrightarrow> \<exists>s t. a = PStr s \<and> b = PStr t \<and> s \<noteq> [] \<and> t \<noteq> []"
  by (auto simp add: named_edge_def split: pyval.splits option.splits if_splits)

lemma scan_lines_append:
  "scan_lines v pd (pre @ ys) =
     (case scan_before v pd pre ys of Inl e \<Rightarrow> Inl e | Inr pd' \<Rightarrow> scan_lines v pd' ys)"
  by (induction pre arbitrary: pd) (simp_all split: sum.splits)

lemma split_sep_aux_no_occurrence:
  "\<forall>i<length s. \<not> startswith sep (drop i s) \<Longrightarrow> split_sep_aux sep cur s = [cur @ s]"
proof (induction s arbitrary: cur)
  case Nil
  then show ?case by simp
next
  case (Cons c cs)
  from Cons.prems have h: "\<not> startswith sep (c # cs)"
    by (metis drop0 length_greater_0_conv list.distinct(1))
  have "\<forall>i<length cs. \<not> startswith sep (drop i cs)"
  proof (intro allI impI)
    fix i assume "i < length cs"
    then have "Suc i < length (c # cs)" by simp
    with Cons.prems have "\<not> startswith sep (drop (Suc i) (c # cs))" by blast
    then show "\<not> startswith sep (drop i cs)" by simp
  qed
  from Cons.IH [OF this, of "cur @ [c]"] h show ?case by simp
qed

lemma process_line_DE_at:
  assumes l: "line = ''DE   RecName: Full='' @ r"
    and "CHR '';'' \<notin> set r"
    and "list_all (\<lambda>i. \<not> startswith ''Full='' (drop i r)) [0..<length r]"
  shows "process_line v pd line rest = Inr (dict_set ''Function'' (PStr r) pd)"
proof -
  from assms(3) have "\<forall>i<length r. \<not> startswith ''Full='' (drop i r)"
    by (simp add: list_all_iff)
  then have t: "split_sep_aux ''Full='' [] r = [r]"
    using split_sep_aux_no_occurrence [of r "''Full=''" "[]"] by simp
  have s: "py_split ''Full='' line = [''DE   RecName: '', r]"
    unfolding l using t by (simp add: py_split_def startswith_def)
  from assms(2) have u: "py_split '';'' r = [r]"
    by (simp add: py_split_def split_char_absent)
  have n: "\<not> startswith ''ID'' line" "\<not> startswith ''SQ'' line"
      "startswith ''DE   RecName: Full='' line"
    unfolding l by (simp_all add: startswith_def)
  have a: "py_index (py_split ''Full='' line) (Suc 0) = Inr r"
    by (simp add: s py_index_def)
  have b: "py_index (py_split '';'' r) 0 = Inr r"
    by (simp add: u py_index_def)
  from n show ?thesis
    by (simp add: process_line_def err_bind_def a b)
qed

lemma process_line_DE_whole:
  assumes "CHR '';'' \<notin> set r"
    and "list_all (\<lambda>i. \<not> startswith ''Full='' (drop i r)) [0..<length r]"
  shows "process_line v pd (''DE   RecName: Full='' @ r) rest
           = Inr (dict_set ''Function'' (PStr r) pd)"
  using process_line_DE_at [OF refl assms] .

section \<open>The claims\<close>

subsection \<open>C1: a matched line without its delimiter\<close>

text \<open>
  Claim C1, as stated, fails: not every rule raises when its delimiter is missing. A
  \<open>DE   RecName: Full=\<close> line without \<open>;\<close> raises nothing, since the source takes element 0
  of the \<open>;\<close>-split, which always exists: \<open>Function\<close> is the text up to the end of the line.
\<close>

theorem C1_counterexample:
  "startswith ''DE   RecName: Full='' ''DE   RecName: Full=Hemoglobin subunit alpha''
   \<and> CHR '';'' \<notin> set ''DE   RecName: Full=Hemoglobin subunit alpha''
   \<and> get_protein_data ASG01
        (const_http (ok_response [''DE   RecName: Full=Hemoglobin subunit alpha'']))
        ''P69905''
      = ([HttpGet (uniprot_url ''P69905'')],
         Inr [(''ID'', PStr ''P69905''), (''Function'', PStr ''Hemoglobin subunit alpha'')])"
  by code_simp

text \<open>
  Claim C1, amended. A line that starts with \<open>DR   SUPFAM\<close>, \<open>DR   Reactome\<close> or
  \<open>DR   MIM\<close> (in the second variant also \<open>DR   PDB\<close> or \<open>DR   AlphaFoldDB\<close>) and contains
  no \<open>;\<close> raises \<open>IndexError\<close> in whatever state the loop reaches it, and the exception
  is not caught. When no earlier line raises, \<open>get_protein_data\<close> ends with this
  \<open>IndexError\<close> and \<open>main\<close> ends with it after the request, showing nothing more; when
  an earlier line raises, they end in the same way with the exception of that line. In
  neither case is a record returned. A \<open>DE   RecName: Full=\<close> line never raises: it
  always stores a \<open>Function\<close>, and when the text after \<open>Full=\<close> holds no \<open>;\<close> and no
  further \<open>Full=\<close>, the \<open>Function\<close> is that whole text.
\<close>

theorem C1_missing_semicolon_raises_for_indexed_fields:
  assumes "status_code (http (uniprot_url uid)) = 200"
    and "py_splitlines (resp_text (http (uniprot_url uid))) = pre @ l # post"
    and "p \<in> set (indexed_prefixes v)"
    and "startswith p l"
    and "CHR '';'' \<notin> set l"
  shows "(\<forall>pd. process_line v pd l post = Inl IndexError)
         \<and> (\<forall>pd. scan_before v [(''ID'', PStr uid)] pre (l # post) = Inr pd \<longrightarrow>
               get_protein_data v http uid = ([HttpGet (uniprot_url uid)], Inl IndexError)
               \<and> (uid \<noteq> [] \<longrightarrow>
                    main v http uid True
                      = (page_head v @ [HttpGet (uniprot_url uid)], Inl IndexError)))
         \<and> (\<forall>e. scan_before v [(''ID'', PStr uid)] pre (l # post) = Inl e \<longrightarrow>
               get_protein_data v http uid = ([HttpGet (uniprot_url uid)], Inl e)
               \<and> (uid \<noteq> [] \<longrightarrow>
                    main v http uid True = (page_head v @ [HttpGet (uniprot_url uid)], Inl e)))
         \<and> (\<forall>pd m rest. startswith ''DE   RecName: Full='' m \<longrightarrow>
               (\<exists>f. process_line v pd m rest = Inr (dict_set ''Function'' (PStr f) pd)))
         \<and> (\<forall>pd r rest.
               CHR '';'' \<notin> set r
               \<and> list_all (\<lambda>i. \<not> startswith ''Full='' (drop i r)) [0..<length r] \<longrightarrow>
               process_line v pd (''DE   RecName: Full='' @ r) rest
                 = Inr (dict_set ''Function'' (PStr r) pd))"
proof -
  have a: "process_line v pd l post = Inl IndexError" for pd
    using assms(3,4,5) by (rule process_line_indexed)
  then have a': "scan_lines v pd (l # post) = Inl IndexError" for pd
    by simp
  have g: "get_protein_data v http uid =
             ([HttpGet (uniprot_url uid)],
              case scan_before v [(''ID'', PStr uid)] pre (l # post) of
                Inl e \<Rightarrow> Inl e | Inr pd' \<Rightarrow> Inl IndexError)"
    using assms(1,2)
    by (simp add: get_protein_data_ok scan_lines_append a' del: scan_lines.simps split: sum.splits)
  have m: "main v http uid True = (page_head v @ [HttpGet (uniprot_url uid)], Inl e)"
    if "get_protein_data v http uid = ([HttpGet (uniprot_url uid)], Inl e)" and "uid \<noteq> []" for e
    using main_pressed [OF that(2) that(1)] by simp
  have b1: "get_protein_data v http uid = ([HttpGet (uniprot_url uid)], Inl IndexError)
               \<and> (uid \<noteq> [] \<longrightarrow>
                    main v http uid True
                      = (page_head v @ [HttpGet (uniprot_url uid)], Inl IndexError))"
    if "scan_before v [(''ID'', PStr uid)] pre (l # post) = Inr pd" for pd
  proof -
    from g that have "get_protein_data v http uid = ([HttpGet (uniprot_url uid)], Inl IndexError)"
      by simp
    with m [of IndexError] show ?thesis by simp
  qed
  have b2: "get_protein_data v http uid = ([HttpGet (uniprot_url uid)], Inl e)
               \<and> (uid \<noteq> [] \<longrightarrow>
                    main v http uid True = (page_head v @ [HttpGet (uniprot_url uid)], Inl e))"
    if "scan_before v [(''ID'', PStr uid)] pre (l # post) = Inl e" for e
  proof -
    from g that have "get_protein_data v http uid = ([HttpGet (uniprot_url uid)], Inl e)"
      by simp
    with m [of e] show ?thesis by simp
  qed
  have c: "\<forall>pd m rest. startswith ''DE   RecName: Full='' m \<longrightarrow>
               (\<exists>f. process_line v pd m rest = Inr (dict_set ''Function'' (PStr f) pd))"
    by (intro allI impI) (rule process_line_DE)
  have d: "\<forall>pd r rest.
               CHR '';'' \<notin> set r
               \<and> list_all (\<lambda>i. \<not> startswith ''Full='' (drop i r)) [0..<length r] \<longrightarrow>
               process_line v pd (''DE   RecName: Full='' @ r) rest
                 = Inr (dict_set ''Function'' (PStr r) pd)"
  proof (intro allI impI, elim conjE)
    fix pd r rest
    assume "CHR '';'' \<notin> set r"
      and "list_all (\<lambda>i. \<not> startswith ''Full='' (drop i r)) [0..<length r]"
    then show "process_line v pd (''DE   RecName: Full='' @ r) rest
                 = Inr (dict_set ''Function'' (PStr r) pd)"
      by (rule process_line_DE_whole)
  qed
  have a2: "\<forall>pd. process_line v pd l post = Inl IndexError"
    using a by (intro allI)
  have b1': "\<forall>pd. scan_before v [(''ID'', PStr uid)] pre (l # post) = Inr pd \<longrightarrow>
               get_protein_data v http uid = ([HttpGet (uniprot_url uid)], Inl IndexError)
               \<and> (uid \<noteq> [] \<longrightarrow>
                    main v http uid True
                      = (page_head v @ [HttpGet (uniprot_url uid)], Inl IndexError))"
    using b1 by (intro allI impI)
  have b2': "\<forall>e. scan_before v [(''ID'', PStr uid)] pre (l # post) = Inl e \<longrightarrow>
               get_protein_data v http uid = ([HttpGet (uniprot_url uid)], Inl e)
               \<and> (uid \<noteq> [] \<longrightarrow>
                    main v http uid True = (page_head v @ [HttpGet (uniprot_url uid)], Inl e))"
    using b2 by (intro allI impI)
  show ?thesis
    by (rule conjI [OF a2 conjI [OF b1' conjI [OF b2' conjI [OF c d]]]])
qed

theorem C1_witness:
  "status_code
     (const_http (ok_response [''ID   HBA_HUMAN Reviewed; 142 AA.'',
        ''DR   SUPFAM SSF46458 Globin-like 1'', ''//'']) (uniprot_url ''P69905'')) = 200
   \<and> py_splitlines (resp_text
        (const_http (ok_response [''ID   HBA_HUMAN Reviewed; 142 AA.'',
           ''DR   SUPFAM SSF46458 Globin-like 1'', ''//'']) (uniprot_url ''P69905'')))
      = [''ID   HBA_HUMAN Reviewed; 142 AA.''] @ ''DR   SUPFAM SSF46458 Globin-like 1'' # [''//'']
   \<and> ''DR   SUPFAM'' \<in> set (indexed_prefixes ASG01)
   \<and> startswith ''DR   SUPFAM'' ''DR   SUPFAM SSF46458 Globin-like 1''
   \<and> CHR '';'' \<notin> set ''DR   SUPFAM SSF46458 Globin-like 1''
   \<and> ''P69905'' \<noteq> []
   \<and> scan_before ASG01 [(''ID'', PStr ''P69905'')] [''ID   HBA_HUMAN Reviewed; 142 AA.'']
        (''DR   SUPFAM SSF46458 Globin-like 1'' # [''//''])
      = Inr [(''ID'', PStr ''P69905''), (''Name'', PStr ''HBA_HUMAN Reviewed; 142 AA.'')]
   \<and> process_line ASG01 [(''ID'', PStr ''P69905'')] ''DR   SUPFAM SSF46458 Globin-like 1''
        [''//''] = Inl IndexError
   \<and> get_protein_data ASG01
        (const_http (ok_response [''ID   HBA_HUMAN Reviewed; 142 AA.'',
           ''DR   SUPFAM SSF46458 Globin-like 1'', ''//''])) ''P69905''
      = ([HttpGet (uniprot_url ''P69905'')], Inl IndexError)
   \<and> main ASG01
        (const_http (ok_response [''ID   HBA_HUMAN Reviewed; 142 AA.'',
           ''DR   SUPFAM SSF46458 Globin-like 1'', ''//''])) ''P69905'' True
      = (page_head ASG01 @ [HttpGet (uniprot_url ''P69905'')], Inl IndexError)
   \<and> startswith ''DE   RecName: Full='' ''DE   RecName: Full=Hemoglobin subunit alpha''
   \<and> CHR '';'' \<notin> set ''Hemoglobin subunit alpha''
   \<and> list_all (\<lambda>i. \<not> startswith ''Full='' (drop i ''Hemoglobin subunit alpha''))
        [0..<length ''Hemoglobin subunit alpha'']
   \<and> process_line ASG01 [(''ID'', PStr ''P69905'')]
        (''DE   RecName: Full='' @ ''Hemoglobin subunit alpha'') []
      = Inr (dict_set ''Function'' (PStr ''Hemoglobin subunit alpha'') [(''ID'', PStr ''P69905'')])"
proof -
  let ?l = "''DR   SUPFAM SSF46458 Globin-like 1''"
  let ?pre = "[''ID   HBA_HUMAN Reviewed; 142 AA.'']"
  let ?h = "const_http (ok_response [''ID   HBA_HUMAN Reviewed; 142 AA.'', ?l, ''//''])"
  let ?pd = "[(''ID'', PStr ''P69905''), (''Name'', PStr ''HBA_HUMAN Reviewed; 142 AA.'')]"
  let ?r = "''Hemoglobin subunit alpha''"
  have h1: "status_code (?h (uniprot_url ''P69905'')) = 200"
    by (simp add: const_http_def ok_response_def)
  have h2: "py_splitlines (resp_text (?h (uniprot_url ''P69905''))) = ?pre @ ?l # [''//'']"
    by code_simp
  have h3: "''DR   SUPFAM'' \<in> set (indexed_prefixes ASG01)"
    by (simp add: indexed_prefixes_def)
  have h4: "startswith ''DR   SUPFAM'' ?l"
    by code_simp
  have h5: "CHR '';'' \<notin> set ?l"
    by simp
  have h6: "''P69905'' \<noteq> []"
    by simp
  have h7: "scan_before ASG01 [(''ID'', PStr ''P69905'')] ?pre (?l # [''//'']) = Inr ?pd"
    by code_simp
  have k1: "startswith ''DE   RecName: Full='' ''DE   RecName: Full=Hemoglobin subunit alpha''"
    by code_simp
  have k2: "CHR '';'' \<notin> set ?r"
    by simp
  have k3: "list_all (\<lambda>i. \<not> startswith ''Full='' (drop i ?r)) [0..<length ?r]"
    by code_simp
  note t = C1_missing_semicolon_raises_for_indexed_fields
             [of ?h "''P69905''" ?pre ?l "[''//'']" "''DR   SUPFAM''" ASG01, OF h1 h2 h3 h4 h5]
  from t have c1: "process_line ASG01 [(''ID'', PStr ''P69905'')] ?l [''//''] = Inl IndexError"
    by (elim conjE allE)
  from t have "scan_before ASG01 [(''ID'', PStr ''P69905'')] ?pre (?l # [''//'']) = Inr ?pd \<longrightarrow>
               get_protein_data ASG01 ?h ''P69905'' = ([HttpGet (uniprot_url ''P69905'')], Inl IndexError)
               \<and> (''P69905'' \<noteq> [] \<longrightarrow>
                    main ASG01 ?h ''P69905'' True
                      = (page_head ASG01 @ [HttpGet (uniprot_url ''P69905'')], Inl IndexError))"
    by (elim conjE allE [where x = ?pd])
  from this h7 have gm: "get_protein_data ASG01 ?h ''P69905''
                 = ([HttpGet (uniprot_url ''P69905'')], Inl IndexError)
               \<and> (''P69905'' \<noteq> [] \<longrightarrow>
                    main ASG01 ?h ''P69905'' True
                      = (page_head ASG01 @ [HttpGet (uniprot_url ''P69905'')], Inl IndexError))"
    by (rule mp)
  from gm have c2: "get_protein_data ASG01 ?h ''P69905''
                 = ([HttpGet (uniprot_url ''P69905'')], Inl IndexError)"
    by (rule conjunct1)
  from gm [THEN conjunct2] h6 have c3: "main ASG01 ?h ''P69905'' True
                      = (page_head ASG01 @ [HttpGet (uniprot_url ''P69905'')], Inl IndexError)"
    by (rule mp)
  from t have "\<forall>pd r rest.
               CHR '';'' \<notin> set r
               \<and> list_all (\<lambda>i. \<not> startswith ''Full='' (drop i r)) [0..<length r] \<longrightarrow>
               process_line ASG01 pd (''DE   RecName: Full='' @ r) rest
                 = Inr (dict_set ''Function'' (PStr r) pd)"
    by (elim conjE)
  then have "CHR '';'' \<notin> set ?r
               \<and> list_all (\<lambda>i. \<not> startswith ''Full='' (drop i ?r)) [0..<length ?r] \<longrightarrow>
               process_line ASG01 [(''ID'', PStr ''P69905'')] (''DE   RecName: Full='' @ ?r) []
                 = Inr (dict_set ''Function'' (PStr ?r) [(''ID'', PStr ''P69905'')])"
    by (elim allE)
  from this conjI [OF k2 k3]
  have c4: "process_line ASG01 [(''ID'', PStr ''P69905'')] (''DE   RecName: Full='' @ ?r) []
                 = Inr (dict_set ''Function'' (PStr ?r) [(''ID'', PStr ''P69905'')])"
    by (rule mp)
  show ?thesis
    by (intro conjI)
       (rule h1, rule h2, rule h3, rule h4, rule h5, rule h6, rule h7, rule c1, rule c2,
        rule c3, rule k1, rule k2, rule k3, rule c4)
qed

subsection \<open>C2: repeated \<open>FT   MOD_RES\<close> lines\<close>

text \<open>
  Claim C2, as stated, fails: a \<open>FT   MOD_RES\<close> line overwrites \<open>Length\<close> only when it
  has a third token and \<open>PTMs\<close> only when it contains a \<open>;\<close>. Below, the last such line
  has no \<open>;\<close>, and the \<open>PTMs\<close> of the final record are those of the line before it.
\<close>

theorem C2_counterexample:
  "startswith ''FT   MOD_RES'' ''FT   MOD_RES       4      4       Phosphoserine; by PKA.''
   \<and> startswith ''FT   MOD_RES'' ''FT   MOD_RES       9      9       N6-acetyllysine.''
   \<and> get_protein_data ASG01
        (const_http (ok_response
           [''FT   MOD_RES       4      4       Phosphoserine; by PKA.'',
            ''FT   MOD_RES       9      9       N6-acetyllysine.'']))
        ''P69905''
      = ([HttpGet (uniprot_url ''P69905'')],
         Inr [(''ID'', PStr ''P69905''), (''Length'', PInt 9),
              (''PTMs'', PList [PStr ''by PKA.''])])
   \<and> map (\<lambda>ptm. PStr (py_strip ptm))
         (drop 1 (py_split '';'' ''FT   MOD_RES       4      4       Phosphoserine; by PKA.''))
      = [PStr ''by PKA.'']
   \<and> drop 1 (py_split '';'' ''FT   MOD_RES       9      9       N6-acetyllysine.'') = []"
  by code_simp

text \<open>
  Claim C2, amended. Every \<open>FT   MOD_RES\<close> line with at least three whitespace-delimited
  tokens overwrites \<open>Length\<close>, and every one that contains a \<open>;\<close> overwrites \<open>PTMs\<close>;
  nothing is accumulated. So, when the extractor returns a record, its \<open>PTMs\<close> is the
  trimmed suffix list of the last \<open>FT   MOD_RES\<close> line that contains a \<open>;\<close>, and its
  \<open>Length\<close> is the integer read from the third token of the last \<open>FT   MOD_RES\<close> line
  that has three tokens. In particular, of two consecutive \<open>FT   MOD_RES\<close> lines with
  \<open>;\<close>-delimited suffixes and none after them, the \<open>PTMs\<close> is the trimmed suffix list of
  the second only.
\<close>

theorem C2_last_supplying_line_wins:
  assumes "status_code (http (uniprot_url uid)) = 200"
    and "py_splitlines (resp_text (http (uniprot_url uid))) = pre @ l # post"
    and "startswith ''FT   MOD_RES'' l"
    and "get_protein_data v http uid = (es, Inr pd)"
  shows "(CHR '';'' \<in> set l
          \<and> (\<forall>m\<in>set post. startswith ''FT   MOD_RES'' m \<longrightarrow> CHR '';'' \<notin> set m)
          \<longrightarrow> map_of pd ''PTMs'' =
                Some (PList (map (\<lambda>ptm. PStr (py_strip ptm)) (drop 1 (py_split '';'' l)))))
         \<and> (3 \<le> length (py_split_ws l)
            \<and> (\<forall>m\<in>set post. startswith ''FT   MOD_RES'' m \<longrightarrow> length (py_split_ws m) < 3)
            \<longrightarrow> (\<exists>n. py_int (py_split_ws l ! 2) = Inr n
                     \<and> map_of pd ''Length'' = Some (PInt n)))"
proof -
  from assms have s: "scan_lines v [(''ID'', PStr uid)] (pre @ l # post) = Inr pd"
    by (simp add: get_protein_data_ok)
  from scan_lines_split [OF s] obtain pd0 pd1 where
    p: "process_line v pd0 l post = Inr pd1" and r: "scan_lines v pd1 post = Inr pd"
    by blast
  have a: "map_of pd ''PTMs'' =
             Some (PList (map (\<lambda>ptm. PStr (py_strip ptm)) (drop 1 (py_split '';'' l))))"
    if h: "CHR '';'' \<in> set l"
      and q: "\<forall>m\<in>set post. startswith ''FT   MOD_RES'' m \<longrightarrow> CHR '';'' \<notin> set m"
  proof -
    from q have "\<forall>m\<in>set post. \<forall>rest. \<not> fires v ''PTMs'' m rest"
      by (simp add: fires_PTMs_iff)
    from scan_lines_unfired [OF r this] have "map_of pd ''PTMs'' = map_of pd1 ''PTMs''" .
    with process_line_FT_PTMs [OF assms(3) p h] show ?thesis by simp
  qed
  have b: "\<exists>n. py_int (py_split_ws l ! 2) = Inr n \<and> map_of pd ''Length'' = Some (PInt n)"
    if h: "3 \<le> length (py_split_ws l)"
      and q: "\<forall>m\<in>set post. startswith ''FT   MOD_RES'' m \<longrightarrow> length (py_split_ws m) < 3"
  proof -
    from q have "\<forall>m\<in>set post. \<forall>rest. \<not> fires v ''Length'' m rest"
      by (auto simp add: fires_Length_iff)
    from scan_lines_unfired [OF r this] have "map_of pd ''Length'' = map_of pd1 ''Length''" .
    with process_line_FT_Length [OF assms(3) p h] show ?thesis by simp
  qed
  from a b show ?thesis by blast
qed

theorem C2_witness:
  "status_code
     (const_http (ok_response
        [''FT   MOD_RES       4      4       Phosphoserine; by PKA.'',
         ''FT   MOD_RES       9      9       N6-acetyllysine; alternate.''])
        (uniprot_url ''P69905'')) = 200
   \<and> py_splitlines (resp_text
        (const_http (ok_response
           [''FT   MOD_RES       4      4       Phosphoserine; by PKA.'',
            ''FT   MOD_RES       9      9       N6-acetyllysine; alternate.''])
           (uniprot_url ''P69905'')))
      = [''FT   MOD_RES       4      4       Phosphoserine; by PKA.'']
        @ ''FT   MOD_RES       9      9       N6-acetyllysine; alternate.'' # []
   \<and> startswith ''FT   MOD_RES'' ''FT   MOD_RES       9      9       N6-acetyllysine; alternate.''
   \<and> get_protein_data ASG01
        (const_http (ok_response
           [''FT   MOD_RES       4      4       Phosphoserine; by PKA.'',
            ''FT   MOD_RES       9      9       N6-acetyllysine; alternate.'']))
        ''P69905''
      = ([HttpGet (uniprot_url ''P69905'')],
         Inr [(''ID'', PStr ''P69905''), (''Length'', PInt 9),
              (''PTMs'', PList [PStr ''alternate.''])])
   \<and> CHR '';'' \<in> set ''FT   MOD_RES       9      9       N6-acetyllysine; alternate.''
   \<and> 3 \<le> length (py_split_ws ''FT   MOD_RES       9      9       N6-acetyllysine; alternate.'')
   \<and> map_of [(''ID'', PStr ''P69905''), (''Length'', PInt 9),
              (''PTMs'', PList [PStr ''alternate.''])] ''PTMs''
      = Some (PList (map (\<lambda>ptm. PStr (py_strip ptm))
           (drop 1 (py_split '';''
              ''FT   MOD_RES       9      9       N6-acetyllysine; alternate.''))))
   \<and> (\<exists>n. py_int (py_split_ws
               ''FT   MOD_RES       9      9       N6-acetyllysine; alternate.'' ! 2) = Inr n
          \<and> map_of [(''ID'', PStr ''P69905''), (''Length'', PInt 9),
                     (''PTMs'', PList [PStr ''alternate.''])] ''Length'' = Some (PInt n))"
proof -
  let ?a = "''FT   MOD_RES       4      4       Phosphoserine; by PKA.''"
  let ?l = "''FT   MOD_RES       9      9       N6-acetyllysine; alternate.''"
  let ?h = "const_http (ok_response [?a, ?l])"
  let ?pd = "[(''ID'', PStr ''P69905''), (''Length'', PInt 9),
              (''PTMs'', PList [PStr ''alternate.''])]"
  have h1: "status_code (?h (uniprot_url ''P69905'')) = 200"
    by (simp add: const_http_def ok_response_def)
  have h2: "py_splitlines (resp_text (?h (uniprot_url ''P69905''))) = [?a] @ ?l # []"
    by code_simp
  have h3: "startswith ''FT   MOD_RES'' ?l"
    by code_simp
  have h4: "get_protein_data ASG01 ?h ''P69905'' = ([HttpGet (uniprot_url ''P69905'')], Inr ?pd)"
    by code_simp
  have h5: "CHR '';'' \<in> set ?l"
    by simp
  have h6: "3 \<le> length (py_split_ws ?l)"
    by code_simp
  have e1: "\<forall>m\<in>set []. startswith ''FT   MOD_RES'' m \<longrightarrow> CHR '';'' \<notin> set m"
    by simp
  have e2: "\<forall>m\<in>set []. startswith ''FT   MOD_RES'' m \<longrightarrow> length (py_split_ws m) < 3"
    by simp
  note t = C2_last_supplying_line_wins
             [of ?h "''P69905''" "[?a]" ?l "[]" ASG01 "[HttpGet (uniprot_url ''P69905'')]" ?pd,
              OF h1 h2 h3 h4]
  from t h5 e1 have c1: "map_of ?pd ''PTMs''
      = Some (PList (map (\<lambda>ptm. PStr (py_strip ptm)) (drop 1 (py_split '';'' ?l))))"
    by (elim conjE) (erule impE, intro conjI)
  from t h6 e2 have c2: "\<exists>n. py_int (py_split_ws ?l ! 2) = Inr n
          \<and> map_of ?pd ''Length'' = Some (PInt n)"
    by (elim conjE) (erule impE [where P = "3 \<le> _ \<and> _"], intro conjI)
  show ?thesis
    by (intro conjI) (rule h1, rule h2, rule h3, rule h4, rule h5, rule h6, rule c1, rule c2)
qed

subsection \<open>C3: no recognized prefix\<close>

text \<open>
  Claim C3. For every caller-supplied identifier and every sequence of lines in which no
  line starts with a recognized prefix, \<open>get_protein_data\<close> (the fetch having succeeded)
  returns the record whose only key is \<open>ID\<close>, mapped to the identifier.
\<close>

theorem C3_no_recognized_prefix_only_id:
  assumes "status_code (http (uniprot_url uid)) = 200"
    and "py_splitlines (resp_text (http (uniprot_url uid))) = lines"
    and "\<forall>line\<in>set lines. \<not> recognized v line"
  shows "get_protein_data v http uid = ([HttpGet (uniprot_url uid)], Inr [(''ID'', PStr uid)])"
  using assms by (simp add: get_protein_data_ok scan_lines_unrecognized)

theorem C3_witness:
  "status_code (const_http (ok_response [''AC   P69905;'', ''OS   Homo sapiens (Human).''])
     (uniprot_url ''P69905'')) = 200
   \<and> py_splitlines (resp_text
        (const_http (ok_response [''AC   P69905;'', ''OS   Homo sapiens (Human).''])
          (uniprot_url ''P69905'')))
      = [''AC   P69905;'', ''OS   Homo sapiens (Human).'']
   \<and> list_all (\<lambda>line. \<not> recognized ASG01 line)
        [''AC   P69905;'', ''OS   Homo sapiens (Human).'']
   \<and> get_protein_data ASG01
        (const_http (ok_response [''AC   P69905;'', ''OS   Homo sapiens (Human).'']))
        ''P69905''
      = ([HttpGet (uniprot_url ''P69905'')], Inr [(''ID'', PStr ''P69905'')])"
proof -
  let ?ls = "[''AC   P69905;'', ''OS   Homo sapiens (Human).'']"
  let ?h = "const_http (ok_response ?ls)"
  have h1: "status_code (?h (uniprot_url ''P69905'')) = 200"
    by (simp add: const_http_def ok_response_def)
  have h2: "py_splitlines (resp_text (?h (uniprot_url ''P69905''))) = ?ls"
    by code_simp
  have h3: "\<forall>line\<in>set ?ls. \<not> recognized ASG01 line"
    by code_simp
  have h4: "list_all (\<lambda>line. \<not> recognized ASG01 line) ?ls"
    using h3 by (simp only: list_all_iff)
  from C3_no_recognized_prefix_only_id [of ?h "''P69905''" ?ls ASG01, OF h1 h2 h3] h1 h2 h4
  show ?thesis by blast
qed

subsection \<open>C4: keys come from fired rules only\<close>

text \<open>
  Claim C4. Whenever the extractor returns a record, the record has the key \<open>ID\<close>, mapped
  to the identifier; every other key of the record is the key of a rule that fired on
  some line of the input; and no key is mapped to \<open>None\<close>: a field the input does not
  supply is absent.
\<close>

theorem C4_keys_only_from_fired_rules:
  assumes "status_code (http (uniprot_url uid)) = 200"
    and "py_splitlines (resp_text (http (uniprot_url uid))) = lines"
    and "get_protein_data v http uid = (es, Inr pd)"
  shows "map_of pd ''ID'' = Some (PStr uid)
         \<and> (\<forall>k\<in>set (dict_keys pd).
               k = ''ID'' \<or> (\<exists>pre l post. lines = pre @ l # post \<and> fires v k l post))
         \<and> (\<forall>k. map_of pd k \<noteq> Some PNone)"
proof -
  from assms have s: "scan_lines v [(''ID'', PStr uid)] lines = Inr pd"
    by (simp add: get_protein_data_ok)
  have eff: "map_of pd k = map_of [(''ID'', PStr uid)] k
     \<or> ((\<exists>pre l post. lines = pre @ l # post \<and> fires v k l post)
        \<and> map_of pd k \<noteq> None \<and> map_of pd k \<noteq> Some PNone)" for k
    by (rule scan_lines_effect [OF s])
  from eff [of "''ID''"] have a: "map_of pd ''ID'' = Some (PStr uid)"
    by (auto simp add: fires_ID_never)
  have b: "k = ''ID'' \<or> (\<exists>pre l post. lines = pre @ l # post \<and> fires v k l post)"
    if "k \<in> set (dict_keys pd)" for k
    using eff [of k] that by (auto simp add: dict_keys_iff split: if_splits)
  have c: "map_of pd k \<noteq> Some PNone" for k
    using eff [of k] by (auto split: if_splits)
  from a b c show ?thesis by blast
qed

theorem C4_witness:
  "status_code
     (const_http (ok_response [''ID   HBA_HUMAN Reviewed; 142 AA.'', ''AC   P69905;'',
        ''DR   MIM; 141800; gene.'']) (uniprot_url ''P69905'')) = 200
   \<and> py_splitlines (resp_text
        (const_http (ok_response [''ID   HBA_HUMAN Reviewed; 142 AA.'', ''AC   P69905;'',
           ''DR   MIM; 141800; gene.'']) (uniprot_url ''P69905'')))
      = [''ID   HBA_HUMAN Reviewed; 142 AA.'', ''AC   P69905;'', ''DR   MIM; 141800; gene.'']
   \<and> get_protein_data ASG01
        (const_http (ok_response [''ID   HBA_HUMAN Reviewed; 142 AA.'', ''AC   P69905;'',
           ''DR   MIM; 141800; gene.''])) ''P69905''
      = ([HttpGet (uniprot_url ''P69905'')],
         Inr [(''ID'', PStr ''P69905''), (''Name'', PStr ''HBA_HUMAN Reviewed; 142 AA.''),
              (''Disease'', PStr '' 141800'')])
   \<and> map_of [(''ID'', PStr ''P69905''), (''Name'', PStr ''HBA_HUMAN Reviewed; 142 AA.''),
              (''Disease'', PStr '' 141800'')] ''ID'' = Some (PStr ''P69905'')
   \<and> list_all
        (\<lambda>k. k = ''ID''
           \<or> (\<exists>pre l post.
                 [''ID   HBA_HUMAN Reviewed; 142 AA.'', ''AC   P69905;'',
                  ''DR   MIM; 141800; gene.''] = pre @ l # post
                 \<and> fires ASG01 k l post))
        (dict_keys [(''ID'', PStr ''P69905''), (''Name'', PStr ''HBA_HUMAN Reviewed; 142 AA.''),
                    (''Disease'', PStr '' 141800'')])"
proof -
  let ?ls = "[''ID   HBA_HUMAN Reviewed; 142 AA.'', ''AC   P69905;'', ''DR   MIM; 141800; gene.'']"
  let ?h = "const_http (ok_response ?ls)"
  let ?pd = "[(''ID'', PStr ''P69905''), (''Name'', PStr ''HBA_HUMAN Reviewed; 142 AA.''),
              (''Disease'', PStr '' 141800'')]"
  have h1: "status_code (?h (uniprot_url ''P69905'')) = 200"
    by (simp add: const_http_def ok_response_def)
  have h2: "py_splitlines (resp_text (?h (uniprot_url ''P69905''))) = ?ls"
    by code_simp
  have h3: "get_protein_data ASG01 ?h ''P69905'' = ([HttpGet (uniprot_url ''P69905'')], Inr ?pd)"
    by code_simp
  note t = C4_keys_only_from_fired_rules
             [of ?h "''P69905''" ?ls ASG01 "[HttpGet (uniprot_url ''P69905'')]" ?pd, OF h1 h2 h3]
  from t have c1: "map_of ?pd ''ID'' = Some (PStr ''P69905'')"
    by (elim conjE)
  from t have "\<forall>k\<in>set (dict_keys ?pd).
       k = ''ID'' \<or> (\<exists>pre l post. ?ls = pre @ l # post \<and> fires ASG01 k l post)"
    by (elim conjE)
  then have c2: "list_all
        (\<lambda>k. k = ''ID'' \<or> (\<exists>pre l post. ?ls = pre @ l # post \<and> fires ASG01 k l post))
        (dict_keys ?pd)"
    by (simp only: list_all_iff)
  show ?thesis
    by (intro conjI) (rule h1, rule h2, rule h3, rule c1, rule c2)
qed

subsection \<open>C5: the name\<close>

text \<open>
  Claim C5, as stated, fails in two ways. The record has one \<open>Name\<close>: of several lines
  that start with \<open>ID\<close> it is the name of the last, not of each. And a line with three
  tokens can give the placeholder text: the tokens of \<open>ID   Not available\<close> after the
  first, joined, are \<open>Not available\<close>.
\<close>

theorem C5_counterexample:
  "startswith ''ID'' ''ID   Not available''
   \<and> length (py_split_ws ''ID   Not available'') = 3
   \<and> get_protein_data ASG01 (const_http (ok_response [''ID   Not available''])) ''P69905''
      = ([HttpGet (uniprot_url ''P69905'')],
         Inr [(''ID'', PStr ''P69905''), (''Name'', PStr ''Not available'')])
   \<and> startswith ''ID'' ''ID   FIRST_NAME''
   \<and> py_join '' '' (drop 1 (py_split_ws ''ID   FIRST_NAME'')) = ''FIRST_NAME''
   \<and> get_protein_data ASG01
        (const_http (ok_response [''ID   FIRST_NAME'', ''ID   SECOND_NAME''])) ''P69905''
      = ([HttpGet (uniprot_url ''P69905'')],
         Inr [(''ID'', PStr ''P69905''), (''Name'', PStr ''SECOND_NAME'')])"
  by code_simp

text \<open>
  Claim C5, amended. For the last line of the input that starts with \<open>ID\<close>, the \<open>Name\<close>
  of the returned record is the tokens of the line after the first, joined with single
  spaces, when the line has at least two whitespace-delimited tokens (for
  \<open>ID   SOME_NAME Reviewed; 141 AA.\<close> it is \<open>SOME_NAME Reviewed; 141 AA.\<close>), and the text
  \<open>Not available\<close> when it has fewer. So the \<open>Name\<close> is \<open>Not available\<close> exactly when
  the line has fewer than two tokens or its tokens after the first, joined, are that
  text themselves.
\<close>

theorem C5_name_from_id_line:
  assumes "status_code (http (uniprot_url uid)) = 200"
    and "py_splitlines (resp_text (http (uniprot_url uid))) = pre @ l # post"
    and "startswith ''ID'' l"
    and "\<forall>m\<in>set post. \<not> startswith ''ID'' m"
    and "get_protein_data v http uid = (es, Inr pd)"
  shows "map_of pd ''Name'' =
           Some (PStr (if 2 \<le> length (py_split_ws l)
                       then py_join '' '' (drop 1 (py_split_ws l))
                       else ''Not available''))
         \<and> ((map_of pd ''Name'' = Some (PStr ''Not available''))
              = (length (py_split_ws l) < 2
                 \<or> py_join '' '' (drop 1 (py_split_ws l)) = ''Not available''))"
proof -
  from assms have s: "scan_lines v [(''ID'', PStr uid)] (pre @ l # post) = Inr pd"
    by (simp add: get_protein_data_ok)
  from scan_lines_split [OF s] obtain pd0 pd1 where
    p: "process_line v pd0 l post = Inr pd1" and r: "scan_lines v pd1 post = Inr pd"
    by blast
  from assms(4) have "\<forall>m\<in>set post. \<forall>rest. \<not> fires v ''Name'' m rest"
    by (simp add: fires_Name_iff)
  from scan_lines_unfired [OF r this] have "map_of pd ''Name'' = map_of pd1 ''Name''" .
  moreover from p assms(3) have "pd1 = dict_set ''Name''
            (PStr (if 2 \<le> length (py_split_ws l)
                   then py_join '' '' (drop 1 (py_split_ws l))
                   else ''Not available'')) pd0"
    by (simp add: process_line_ID)
  then have "map_of pd1 ''Name'' =
           Some (PStr (if 2 \<le> length (py_split_ws l)
                       then py_join '' '' (drop 1 (py_split_ws l))
                       else ''Not available''))"
    by (simp only: map_of_dict_set_same)
  ultimately have n: "map_of pd ''Name'' =
           Some (PStr (if 2 \<le> length (py_split_ws l)
                       then py_join '' '' (drop 1 (py_split_ws l))
                       else ''Not available''))"
    by simp
  have "(map_of pd ''Name'' = Some (PStr ''Not available''))
              = (length (py_split_ws l) < 2
                 \<or> py_join '' '' (drop 1 (py_split_ws l)) = ''Not available'')"
    unfolding n by (cases "2 \<le> length (py_split_ws l)") (simp_all add: not_le)
  with n show ?thesis by (rule conjI)
qed

theorem C5_witness:
  "status_code
     (const_http (ok_response [''ID   SOME_NAME Reviewed; 141 AA.'', ''AC   P69905;''])
        (uniprot_url ''P69905'')) = 200
   \<and> py_splitlines (resp_text
        (const_http (ok_response [''ID   SOME_NAME Reviewed; 141 AA.'', ''AC   P69905;''])
           (uniprot_url ''P69905'')))
      = [] @ ''ID   SOME_NAME Reviewed; 141 AA.'' # [''AC   P69905;'']
   \<and> startswith ''ID'' ''ID   SOME_NAME Reviewed; 141 AA.''
   \<and> list_all (\<lambda>m. \<not> startswith ''ID'' m) [''AC   P69905;'']
   \<and> get_protein_data ASG01
        (const_http (ok_response [''ID   SOME_NAME Reviewed; 141 AA.'', ''AC   P69905;'']))
        ''P69905''
      = ([HttpGet (uniprot_url ''P69905'')],
         Inr [(''ID'', PStr ''P69905''), (''Name'', PStr ''SOME_NAME Reviewed; 141 AA.'')])
   \<and> map_of [(''ID'', PStr ''P69905''), (''Name'', PStr ''SOME_NAME Reviewed; 141 AA.'')] ''Name''
      = Some (PStr (if 2 \<le> length (py_split_ws ''ID   SOME_NAME Reviewed; 141 AA.'')
                    then py_join '' '' (drop 1 (py_split_ws ''ID   SOME_NAME Reviewed; 141 AA.''))
                    else ''Not available''))
   \<and> length (py_split_ws ''ID   SOME_NAME Reviewed; 141 AA.'') = 5
   \<and> status_code (const_http (ok_response [''ID'']) (uniprot_url ''P69905'')) = 200
   \<and> py_splitlines (resp_text (const_http (ok_response [''ID'']) (uniprot_url ''P69905'')))
      = [] @ ''ID'' # []
   \<and> startswith ''ID'' ''ID''
   \<and> get_protein_data ASG01 (const_http (ok_response [''ID''])) ''P69905''
      = ([HttpGet (uniprot_url ''P69905'')],
         Inr [(''ID'', PStr ''P69905''), (''Name'', PStr ''Not available'')])
   \<and> map_of [(''ID'', PStr ''P69905''), (''Name'', PStr ''Not available'')] ''Name''
      = Some (PStr (if 2 \<le> length (py_split_ws ''ID'')
                    then py_join '' '' (drop 1 (py_split_ws ''ID''))
                    else ''Not available''))
   \<and> length (py_split_ws ''ID'') = 1"
proof -
  let ?l = "''ID   SOME_NAME Reviewed; 141 AA.''"
  let ?h = "const_http (ok_response [?l, ''AC   P69905;''])"
  let ?pd = "[(''ID'', PStr ''P69905''), (''Name'', PStr ''SOME_NAME Reviewed; 141 AA.'')]"
  let ?h' = "const_http (ok_response [''ID''])"
  let ?pd' = "[(''ID'', PStr ''P69905''), (''Name'', PStr ''Not available'')]"
  have h1: "status_code (?h (uniprot_url ''P69905'')) = 200"
    by (simp add: const_http_def ok_response_def)
  have h2: "py_splitlines (resp_text (?h (uniprot_url ''P69905''))) = [] @ ?l # [''AC   P69905;'']"
    by code_simp
  have h3: "startswith ''ID'' ?l"
    by code_simp
  have h4: "list_all (\<lambda>m. \<not> startswith ''ID'' m) [''AC   P69905;'']"
    by code_simp
  then have h4': "\<forall>m\<in>set [''AC   P69905;'']. \<not> startswith ''ID'' m"
    by (simp only: list_all_iff)
  have h5: "get_protein_data ASG01 ?h ''P69905'' = ([HttpGet (uniprot_url ''P69905'')], Inr ?pd)"
    by code_simp
  have n: "length (py_split_ws ?l) = 5"
    by code_simp
  have k1: "status_code (?h' (uniprot_url ''P69905'')) = 200"
    by (simp add: const_http_def ok_response_def)
  have k2: "py_splitlines (resp_text (?h' (uniprot_url ''P69905''))) = [] @ ''ID'' # []"
    by code_simp
  have k3: "startswith ''ID'' ''ID''"
    by code_simp
  have k4: "\<forall>m\<in>set []. \<not> startswith ''ID'' m"
    by simp
  have k5: "get_protein_data ASG01 ?h' ''P69905'' = ([HttpGet (uniprot_url ''P69905'')], Inr ?pd')"
    by code_simp
  have n': "length (py_split_ws ''ID'') = 1"
    by code_simp
  note c1 = C5_name_from_id_line
              [of ?h "''P69905''" "[]" ?l "[''AC   P69905;'']" ASG01
                  "[HttpGet (uniprot_url ''P69905'')]" ?pd, OF h1 h2 h3 h4' h5]
  note c2 = C5_name_from_id_line
              [of ?h' "''P69905''" "[]" "''ID''" "[]" ASG01
                  "[HttpGet (uniprot_url ''P69905'')]" ?pd', OF k1 k2 k3 k4 k5]
  show ?thesis
    by (intro conjI)
       (rule h1, rule h2, rule h3, rule h4, rule h5, rule c1 [THEN conjunct1], rule n,
        rule k1, rule k2, rule k3, rule k5, rule c2 [THEN conjunct1], rule n')
qed

subsection \<open>C6: an \<open>SQ\<close> line at the end of the input\<close>

text \<open>
  Claim C6, as stated, fails: the guard protects the last line only. A line that starts
  with \<open>SQ\<close> and is not the last reads the line after it, so an input that ends with two
  \<open>SQ\<close> lines gives a \<open>Weight\<close> (the last token of the final line), and an \<open>SQ\<close> line
  followed by an empty line raises \<open>IndexError\<close> although the final line starts with \<open>SQ\<close>.
\<close>

theorem C6_counterexample:
  "startswith ''SQ'' ''SQ   SEQUENCE 2''
   \<and> get_protein_data ASG01
        (const_http (ok_response [''SQ   SEQUENCE 1'', ''SQ   SEQUENCE 2''])) ''P69905''
      = ([HttpGet (uniprot_url ''P69905'')],
         Inr [(''ID'', PStr ''P69905''), (''Weight'', PStr ''2'')])
   \<and> dict_has [(''ID'', PStr ''P69905''), (''Weight'', PStr ''2'')] ''Weight''
   \<and> get_protein_data ASG01
        (const_http (ok_response [''SQ   SEQUENCE 1'', [], ''SQ   SEQUENCE 2''])) ''P69905''
      = ([HttpGet (uniprot_url ''P69905'')], Inl IndexError)"
  by code_simp

text \<open>
  Claim C6, amended. When the last line of the input starts with \<open>SQ\<close>, the loop body
  on that line leaves the record as it is and raises nothing, in every state: the
  lookahead is guarded at the end of the input. A \<open>Weight\<close> in the returned record can
  then only come from an earlier line that starts with \<open>SQ\<close>; when there is none, the
  result is that of the input without its last line, and a returned record has no
  \<open>Weight\<close>.
\<close>

theorem C6_sq_last_line_guarded:
  assumes "status_code (http (uniprot_url uid)) = 200"
    and "py_splitlines (resp_text (http (uniprot_url uid))) = pre @ [l]"
    and "startswith ''SQ'' l"
  shows "(\<forall>pd. process_line v pd l [] = Inr pd)
         \<and> (\<forall>pd. get_protein_data v http uid = (es, Inr pd) \<and> dict_has pd ''Weight''
                \<longrightarrow> (\<exists>a m b. pre = a @ m # b \<and> startswith ''SQ'' m))
         \<and> ((\<forall>m\<in>set pre. \<not> startswith ''SQ'' m)
            \<longrightarrow> get_protein_data v http uid =
                  ([HttpGet (uniprot_url uid)], scan_lines v [(''ID'', PStr uid)] pre))
         \<and> (\<forall>pd. (\<forall>m\<in>set pre. \<not> startswith ''SQ'' m)
                \<and> get_protein_data v http uid = (es, Inr pd)
                \<longrightarrow> \<not> dict_has pd ''Weight'')"
proof -
  have a: "process_line v pd l [] = Inr pd" for pd
    using assms(3) by (rule process_line_SQ_last)
  have b: "\<exists>a m b. pre = a @ m # b \<and> startswith ''SQ'' m"
    if g: "get_protein_data v http uid = (es, Inr pd)" and w: "dict_has pd ''Weight''" for pd
  proof -
    from g assms(1,2) have s: "scan_lines v [(''ID'', PStr uid)] (pre @ [l]) = Inr pd"
      by (simp add: get_protein_data_ok)
    from w have "map_of pd ''Weight'' \<noteq> map_of [(''ID'', PStr uid)] ''Weight''"
      by (simp add: dict_has_def)
    with scan_lines_effect [OF s, of "''Weight''"]
    obtain a m b where e: "pre @ [l] = a @ m # b" and f: "fires v ''Weight'' m b"
      by blast
    from f have "startswith ''SQ'' m" and "b \<noteq> []" by (simp_all add: fires_Weight_iff)
    with snoc_eq_mid [OF e] show ?thesis by blast
  qed
  have c: "get_protein_data v http uid =
             ([HttpGet (uniprot_url uid)], scan_lines v [(''ID'', PStr uid)] pre)"
    if "\<forall>m\<in>set pre. \<not> startswith ''SQ'' m"
    using assms that by (simp add: get_protein_data_ok scan_lines_snoc_SQ)
  have d: "\<not> dict_has pd ''Weight''"
    if n: "\<forall>m\<in>set pre. \<not> startswith ''SQ'' m"
      and g: "get_protein_data v http uid = (es, Inr pd)" for pd
  proof
    assume "dict_has pd ''Weight''"
    from b [OF g this] obtain a m b where "pre = a @ m # b" and "startswith ''SQ'' m" by blast
    with n show False by simp
  qed
  from a b c d show ?thesis by blast
qed

theorem C6_witness:
  "status_code
     (const_http (ok_response [''ID   HBA_HUMAN Reviewed; 142 AA.'',
        ''SQ   SEQUENCE   142 AA;  15258 MW;  15E13666573BBBAE CRC64;''])
        (uniprot_url ''P69905'')) = 200
   \<and> py_splitlines (resp_text
        (const_http (ok_response [''ID   HBA_HUMAN Reviewed; 142 AA.'',
           ''SQ   SEQUENCE   142 AA;  15258 MW;  15E13666573BBBAE CRC64;''])
           (uniprot_url ''P69905'')))
      = [''ID   HBA_HUMAN Reviewed; 142 AA.'']
        @ [''SQ   SEQUENCE   142 AA;  15258 MW;  15E13666573BBBAE CRC64;'']
   \<and> startswith ''SQ'' ''SQ   SEQUENCE   142 AA;  15258 MW;  15E13666573BBBAE CRC64;''
   \<and> list_all (\<lambda>m. \<not> startswith ''SQ'' m) [''ID   HBA_HUMAN Reviewed; 142 AA.'']
   \<and> process_line ASG01 [(''ID'', PStr ''P69905'')]
        ''SQ   SEQUENCE   142 AA;  15258 MW;  15E13666573BBBAE CRC64;'' []
      = Inr [(''ID'', PStr ''P69905'')]
   \<and> get_protein_data ASG01
        (const_http (ok_response [''ID   HBA_HUMAN Reviewed; 142 AA.'',
           ''SQ   SEQUENCE   142 AA;  15258 MW;  15E13666573BBBAE CRC64;'']))
        ''P69905''
      = ([HttpGet (uniprot_url ''P69905'')],
         scan_lines ASG01 [(''ID'', PStr ''P69905'')] [''ID   HBA_HUMAN Reviewed; 142 AA.''])
   \<and> scan_lines ASG01 [(''ID'', PStr ''P69905'')] [''ID   HBA_HUMAN Reviewed; 142 AA.'']
      = Inr [(''ID'', PStr ''P69905''), (''Name'', PStr ''HBA_HUMAN Reviewed; 142 AA.'')]
   \<and> get_protein_data ASG01
        (const_http (ok_response [''ID   HBA_HUMAN Reviewed; 142 AA.'',
           ''SQ   SEQUENCE   142 AA;  15258 MW;  15E13666573BBBAE CRC64;'']))
        ''P69905''
      = ([HttpGet (uniprot_url ''P69905'')],
         Inr [(''ID'', PStr ''P69905''), (''Name'', PStr ''HBA_HUMAN Reviewed; 142 AA.'')])
   \<and> \<not> dict_has [(''ID'', PStr ''P69905''), (''Name'', PStr ''HBA_HUMAN Reviewed; 142 AA.'')]
          ''Weight''"
proof -
  let ?a = "''ID   HBA_HUMAN Reviewed; 142 AA.''"
  let ?l = "''SQ   SEQUENCE   142 AA;  15258 MW;  15E13666573BBBAE CRC64;''"
  let ?h = "const_http (ok_response [?a, ?l])"
  have h1: "status_code (?h (uniprot_url ''P69905'')) = 200"
    by (simp add: const_http_def ok_response_def)
  have h2: "py_splitlines (resp_text (?h (uniprot_url ''P69905''))) = [?a] @ [?l]"
    by code_simp
  have h3: "startswith ''SQ'' ?l"
    by code_simp
  have h4: "list_all (\<lambda>m. \<not> startswith ''SQ'' m) [?a]"
    by code_simp
  then have h4': "\<forall>m\<in>set [?a]. \<not> startswith ''SQ'' m"
    by (simp only: list_all_iff)
  let ?pd = "[(''ID'', PStr ''P69905''), (''Name'', PStr ''HBA_HUMAN Reviewed; 142 AA.'')]"
  have h5: "get_protein_data ASG01 ?h ''P69905'' = ([HttpGet (uniprot_url ''P69905'')], Inr ?pd)"
    by code_simp
  note t = C6_sq_last_line_guarded
             [of ?h "''P69905''" "[?a]" ?l ASG01 "[HttpGet (uniprot_url ''P69905'')]",
              OF h1 h2 h3]
  from t have c1: "process_line ASG01 [(''ID'', PStr ''P69905'')] ?l [] = Inr [(''ID'', PStr ''P69905'')]"
    by (elim conjE allE)
  from t h4' have c2: "get_protein_data ASG01 ?h ''P69905''
      = ([HttpGet (uniprot_url ''P69905'')], scan_lines ASG01 [(''ID'', PStr ''P69905'')] [?a])"
    by (elim conjE) (erule impE [where P = "Ball _ _"])
  have c3: "scan_lines ASG01 [(''ID'', PStr ''P69905'')] [?a]
      = Inr [(''ID'', PStr ''P69905''), (''Name'', PStr ''HBA_HUMAN Reviewed; 142 AA.'')]"
    by code_simp
  from t have "(\<forall>m\<in>set [?a]. \<not> startswith ''SQ'' m)
        \<and> get_protein_data ASG01 ?h ''P69905''
            = ([HttpGet (uniprot_url ''P69905'')], Inr ?pd)
        \<longrightarrow> \<not> dict_has ?pd ''Weight''"
    by (elim conjE allE [where x = ?pd])
  from this conjI [OF h4' h5] have c4: "\<not> dict_has ?pd ''Weight''"
    by (rule mp)
  show ?thesis
    by (intro conjI)
       (rule h1, rule h2, rule h3, rule h4, rule c1, rule c2, rule c3, rule h5, rule c4)
qed

subsection \<open>C7: a failed record fetch\<close>

text \<open>
  Claim C7. When the response to the record fetch has a status other than 200 (every
  non-success status is one), \<open>get_protein_data\<close> shows an error and returns the empty
  record, and the cycle shows nothing more: after the page head, the events of \<open>main\<close>
  are the request and the error, with no characteristics, no interaction network and no
  structure.
\<close>

theorem C7_fetch_failure_ends_cycle:
  assumes "status_code (http (uniprot_url uid)) \<noteq> 200"
  shows "get_protein_data v http uid =
           ([HttpGet (uniprot_url uid),
             StError ''Invalid UniProt ID or unable to fetch data.''], Inr [])
         \<and> (uid \<noteq> [] \<longrightarrow>
              main v http uid True =
                (page_head v @ [HttpGet (uniprot_url uid),
                   StError ''Invalid UniProt ID or unable to fetch data.''], Inr ()))"
proof -
  have f: "get_protein_data v http uid =
     ([HttpGet (uniprot_url uid), StError ''Invalid UniProt ID or unable to fetch data.''], Inr [])"
    using assms by (rule get_protein_data_failed)
  have "uid \<noteq> [] \<Longrightarrow> main v http uid True =
                (page_head v @ [HttpGet (uniprot_url uid),
                   StError ''Invalid UniProt ID or unable to fetch data.''], Inr ())"
    using main_pressed [of uid v http _ "Inr []"] f by simp
  with f show ?thesis by simp
qed

theorem C7_witness:
  "status_code (const_http \<lparr>status_code = 404, resp_text = ''Not Found'', resp_json = None\<rparr>
      (uniprot_url ''XYZ'')) \<noteq> 200
   \<and> ''XYZ'' \<noteq> []
   \<and> get_protein_data App
       (const_http \<lparr>status_code = 404, resp_text = ''Not Found'', resp_json = None\<rparr>) ''XYZ'' =
       ([HttpGet (uniprot_url ''XYZ''),
         StError ''Invalid UniProt ID or unable to fetch data.''], Inr [])
   \<and> main App (const_http \<lparr>status_code = 404, resp_text = ''Not Found'', resp_json = None\<rparr>)
       ''XYZ'' True =
       (page_head App @ [HttpGet (uniprot_url ''XYZ''),
          StError ''Invalid UniProt ID or unable to fetch data.''], Inr ())"
proof -
  let ?h = "const_http \<lparr>status_code = 404, resp_text = ''Not Found'', resp_json = None\<rparr>"
  have h: "status_code (?h (uniprot_url ''XYZ'')) \<noteq> 200"
    by (simp add: const_http_def)
  have n: "''XYZ'' \<noteq> []" by simp
  from C7_fetch_failure_ends_cycle [of ?h "''XYZ''" App, OF h] h n show ?thesis by blast
qed

subsection \<open>C8: the endpoint of the structure fetch\<close>

text \<open>
  Claim C8, as stated, fails: \<open>display_structure\<close> tests the identifiers for truth, not
  for presence. A \<open>DR   PDB\<close> line whose second field is blank stores the empty string
  under \<open>PDB_ID\<close>; the record then contains a \<open>PDB_ID\<close>, and the structure is fetched
  from the predicted-structure endpoint.
\<close>

theorem C8_counterexample:
  "scan_lines App [(''ID'', PStr ''P69905'')]
     [''DR   PDB; ; X-ray; 1.80 A; A/B=1-142.'', ''DR   AlphaFoldDB; P69905; -.'']
     = Inr [(''ID'', PStr ''P69905''), (''PDB_ID'', PStr ''''), (''AlphaFold_ID'', PStr ''P69905'')]
   \<and> dict_has [(''ID'', PStr ''P69905''), (''PDB_ID'', PStr ''''),
                (''AlphaFold_ID'', PStr ''P69905'')] ''PDB_ID''
   \<and> display_structure (const_http (ok_response [''HEADER'']))
        [(''ID'', PStr ''P69905''), (''PDB_ID'', PStr ''''), (''AlphaFold_ID'', PStr ''P69905'')]
      = ([StSubheader ''3D Structure Viewer'',
          StWrite [Lit ''Showing AlphaFold predicted structure for UniProt ID: **'',
                   Val (PStr ''P69905''), Lit ''**''],
          HttpGet (alphafold_url (PStr ''P69905'')),
          StViewer (unlines [''HEADER''])], Inr ())"
  by code_simp

text \<open>
  Claim C8, amended. If the record holds a non-empty \<open>PDB_ID\<close>, the structure is fetched
  from the structure-database endpoint keyed by it, whatever \<open>AlphaFold_ID\<close> is. If
  \<open>PDB_ID\<close> is absent or empty and the record holds a non-empty \<open>AlphaFold_ID\<close>, the
  structure is fetched from the predicted-structure endpoint keyed by that. If each of the
  two is absent or empty, a warning is shown, nothing is fetched and nothing is rendered.
\<close>

theorem C8_structure_endpoint_by_truth:
  "(map_of pd ''PDB_ID'' = Some (PStr p) \<and> p \<noteq> [] \<longrightarrow>
      display_structure http pd =
        ([StSubheader ''3D Structure Viewer'',
          StWrite [Lit ''Showing PDB structure: **'', Val (PStr p), Lit ''**''],
          HttpGet (rcsb_url (PStr p)),
          StViewer (resp_text (http (rcsb_url (PStr p))))], Inr ()))
   \<and> ((map_of pd ''PDB_ID'' = None \<or> map_of pd ''PDB_ID'' = Some (PStr []))
        \<and> map_of pd ''AlphaFold_ID'' = Some (PStr a) \<and> a \<noteq> [] \<longrightarrow>
      display_structure http pd =
        ([StSubheader ''3D Structure Viewer'',
          StWrite [Lit ''Showing AlphaFold predicted structure for UniProt ID: **'',
                   Val (PStr a), Lit ''**''],
          HttpGet (alphafold_url (PStr a)),
          StViewer (resp_text (http (alphafold_url (PStr a))))], Inr ()))
   \<and> ((map_of pd ''PDB_ID'' = None \<or> map_of pd ''PDB_ID'' = Some (PStr []))
        \<and> (map_of pd ''AlphaFold_ID'' = None \<or> map_of pd ''AlphaFold_ID'' = Some (PStr [])) \<longrightarrow>
      display_structure http pd =
        ([StSubheader ''3D Structure Viewer'',
          StWarning ''No PDB or AlphaFold structure available for this protein.''], Inr ()))"
  by (auto simp add: display_structure_cases dict_get_def dict_get_default_def
        split: option.splits)

theorem C8_witness:
  "display_structure (const_http (ok_response [''HEADER'']))
     [(''ID'', PStr ''P69905''), (''PDB_ID'', PStr ''1A00''), (''AlphaFold_ID'', PStr ''P69905'')]
     = ([StSubheader ''3D Structure Viewer'',
         StWrite [Lit ''Showing PDB structure: **'', Val (PStr ''1A00''), Lit ''**''],
         HttpGet (rcsb_url (PStr ''1A00'')),
         StViewer (resp_text (const_http (ok_response [''HEADER'']) (rcsb_url (PStr ''1A00''))))],
        Inr ())
   \<and> display_structure (const_http (ok_response [''HEADER'']))
       [(''ID'', PStr ''P69905''), (''AlphaFold_ID'', PStr ''P69905'')]
     = ([StSubheader ''3D Structure Viewer'',
         StWrite [Lit ''Showing AlphaFold predicted structure for UniProt ID: **'',
                  Val (PStr ''P69905''), Lit ''**''],
         HttpGet (alphafold_url (PStr ''P69905'')),
         StViewer (resp_text (const_http (ok_response [''HEADER''])
                     (alphafold_url (PStr ''P69905''))))],
        Inr ())
   \<and> display_structure (const_http (ok_response [''HEADER''])) [(''ID'', PStr ''P69905'')]
     = ([StSubheader ''3D Structure Viewer'',
         StWarning ''No PDB or AlphaFold structure available for this protein.''], Inr ())"
proof -
  let ?h = "const_http (ok_response [''HEADER''])"
  let ?d1 = "[(''ID'', PStr ''P69905''), (''PDB_ID'', PStr ''1A00''),
              (''AlphaFold_ID'', PStr ''P69905'')]"
  let ?d2 = "[(''ID'', PStr ''P69905''), (''AlphaFold_ID'', PStr ''P69905'')]"
  let ?d3 = "[(''ID'', PStr ''P69905'')]"
  have a1: "map_of ?d1 ''PDB_ID'' = Some (PStr ''1A00'') \<and> ''1A00'' \<noteq> []"
    by simp
  have a2: "(map_of ?d2 ''PDB_ID'' = None \<or> map_of ?d2 ''PDB_ID'' = Some (PStr []))
            \<and> map_of ?d2 ''AlphaFold_ID'' = Some (PStr ''P69905'') \<and> ''P69905'' \<noteq> []"
    by simp
  have a3: "(map_of ?d3 ''PDB_ID'' = None \<or> map_of ?d3 ''PDB_ID'' = Some (PStr []))
            \<and> (map_of ?d3 ''AlphaFold_ID'' = None \<or> map_of ?d3 ''AlphaFold_ID'' = Some (PStr []))"
    by simp
  from C8_structure_endpoint_by_truth [of ?d1 "''1A00''" ?h] a1
  have r1: "display_structure ?h ?d1 =
        ([StSubheader ''3D Structure Viewer'',
          StWrite [Lit ''Showing PDB structure: **'', Val (PStr ''1A00''), Lit ''**''],
          HttpGet (rcsb_url (PStr ''1A00'')),
          StViewer (resp_text (?h (rcsb_url (PStr ''1A00''))))], Inr ())"
    by blast
  from C8_structure_endpoint_by_truth [of ?d2 _ ?h "''P69905''"] a2
  have r2: "display_structure ?h ?d2 =
        ([StSubheader ''3D Structure Viewer'',
          StWrite [Lit ''Showing AlphaFold predicted structure for UniProt ID: **'',
                   Val (PStr ''P69905''), Lit ''**''],
          HttpGet (alphafold_url (PStr ''P69905'')),
          StViewer (resp_text (?h (alphafold_url (PStr ''P69905''))))], Inr ())"
    by blast
  from C8_structure_endpoint_by_truth [of ?d3 _ ?h] a3
  have r3: "display_structure ?h ?d3 =
        ([StSubheader ''3D Structure Viewer'',
          StWarning ''No PDB or AlphaFold structure available for this protein.''], Inr ())"
    by blast
  from r1 r2 r3 show ?thesis by blast
qed

subsection \<open>C9: a blank line after an \<open>SQ\<close> line\<close>

text \<open>
  Claim C9, as stated, fails when an earlier line raises first: \<open>get_protein_data\<close>
  then ends with the exception of that line, below the \<open>ValueError\<close> of \<open>int('x')\<close>, not
  with an out-of-bounds error.
\<close>

theorem C9_counterexample:
  "startswith ''SQ'' ''SQ   SEQUENCE   142 AA;  15258 MW;''
   \<and> list_all is_space ''   ''
   \<and> get_protein_data ASG01
        (const_http (ok_response
           [''FT   MOD_RES x y'', ''SQ   SEQUENCE   142 AA;  15258 MW;'', ''   '']))
        ''P69905''
      = ([HttpGet (uniprot_url ''P69905'')], Inl ValueError)"
  by code_simp

text \<open>
  Claim C9, amended. The test for the end of the input is the only guard of the
  \<open>Weight\<close> rule, in both variants. When a line that starts with \<open>SQ\<close> is followed by a
  line that is empty or holds whitespace only, that line has no token and the loop body
  raises \<open>IndexError\<close> on the \<open>SQ\<close> line in whatever state it reaches it, so that
  \<open>get_protein_data\<close> never returns a record: it ends with this \<open>IndexError\<close> when no
  earlier line raises (as when the \<open>SQ\<close> line is the first line), and with the
  exception of the earlier line otherwise.
\<close>

theorem C9_blank_line_after_sq_raises:
  assumes "status_code (http (uniprot_url uid)) = 200"
    and "py_splitlines (resp_text (http (uniprot_url uid))) = pre @ sq # nxt # post"
    and "startswith ''SQ'' sq"
    and "\<forall>c\<in>set nxt. is_space c"
  shows "py_split_ws nxt = []
         \<and> (\<forall>pd. process_line v pd sq (nxt # post) = Inl IndexError)
         \<and> (\<forall>pd. scan_before v [(''ID'', PStr uid)] pre (sq # nxt # post) = Inr pd \<longrightarrow>
               get_protein_data v http uid = ([HttpGet (uniprot_url uid)], Inl IndexError))
         \<and> (\<forall>e. scan_before v [(''ID'', PStr uid)] pre (sq # nxt # post) = Inl e \<longrightarrow>
               get_protein_data v http uid = ([HttpGet (uniprot_url uid)], Inl e))
         \<and> (\<exists>e. get_protein_data v http uid = ([HttpGet (uniprot_url uid)], Inl e))
         \<and> (pre = [] \<longrightarrow>
              get_protein_data v http uid = ([HttpGet (uniprot_url uid)], Inl IndexError))"
proof -
  have a: "py_split_ws nxt = []"
    using assms(4) by (simp add: py_split_ws_Nil_iff)
  have b: "process_line v pd sq (nxt # post) = Inl IndexError" for pd
    using assms(3,4) by (rule process_line_SQ_blank)
  then have b': "scan_lines v pd (sq # nxt # post) = Inl IndexError" for pd
    by simp
  have g: "get_protein_data v http uid =
             ([HttpGet (uniprot_url uid)],
              case scan_before v [(''ID'', PStr uid)] pre (sq # nxt # post) of
                Inl e \<Rightarrow> Inl e | Inr pd' \<Rightarrow> Inl IndexError)"
    using assms(1,2)
    by (simp add: get_protein_data_ok scan_lines_append b' del: scan_lines.simps split: sum.splits)
  have b2: "\<forall>pd. process_line v pd sq (nxt # post) = Inl IndexError"
    using b by (intro allI)
  have c1: "\<forall>pd. scan_before v [(''ID'', PStr uid)] pre (sq # nxt # post) = Inr pd \<longrightarrow>
               get_protein_data v http uid = ([HttpGet (uniprot_url uid)], Inl IndexError)"
    using g by simp
  have c2: "\<forall>e. scan_before v [(''ID'', PStr uid)] pre (sq # nxt # post) = Inl e \<longrightarrow>
               get_protein_data v http uid = ([HttpGet (uniprot_url uid)], Inl e)"
    using g by simp
  have c3: "\<exists>e. get_protein_data v http uid = ([HttpGet (uniprot_url uid)], Inl e)"
    using g by (cases "scan_before v [(''ID'', PStr uid)] pre (sq # nxt # post)") simp_all
  have d: "pre = [] \<longrightarrow>
             get_protein_data v http uid = ([HttpGet (uniprot_url uid)], Inl IndexError)"
    using g by simp
  show ?thesis
    by (rule conjI [OF a conjI [OF b2 conjI [OF c1 conjI [OF c2 conjI [OF c3 d]]]]])
qed

theorem C9_witness:
  "status_code
     (const_http (ok_response [''ID   HBA_HUMAN Reviewed; 142 AA.'',
        ''SQ   SEQUENCE   142 AA;  15258 MW;'', ''   ''])
        (uniprot_url ''P69905'')) = 200
   \<and> py_splitlines (resp_text
        (const_http (ok_response [''ID   HBA_HUMAN Reviewed; 142 AA.'',
           ''SQ   SEQUENCE   142 AA;  15258 MW;'', ''   ''])
           (uniprot_url ''P69905'')))
      = [''ID   HBA_HUMAN Reviewed; 142 AA.''] @ ''SQ   SEQUENCE   142 AA;  15258 MW;'' # ''   '' # []
   \<and> startswith ''SQ'' ''SQ   SEQUENCE   142 AA;  15258 MW;''
   \<and> list_all is_space ''   ''
   \<and> scan_before App [(''ID'', PStr ''P69905'')] [''ID   HBA_HUMAN Reviewed; 142 AA.'']
        (''SQ   SEQUENCE   142 AA;  15258 MW;'' # ''   '' # [])
      = Inr [(''ID'', PStr ''P69905''), (''Name'', PStr ''HBA_HUMAN Reviewed; 142 AA.'')]
   \<and> py_split_ws ''   '' = []
   \<and> process_line App [(''ID'', PStr ''P69905'')] ''SQ   SEQUENCE   142 AA;  15258 MW;''
        [''   ''] = Inl IndexError
   \<and> get_protein_data App
        (const_http (ok_response [''ID   HBA_HUMAN Reviewed; 142 AA.'',
           ''SQ   SEQUENCE   142 AA;  15258 MW;'', ''   '']))
        ''P69905''
      = ([HttpGet (uniprot_url ''P69905'')], Inl IndexError)"
proof -
  let ?a = "''ID   HBA_HUMAN Reviewed; 142 AA.''"
  let ?l = "''SQ   SEQUENCE   142 AA;  15258 MW;''"
  let ?h = "const_http (ok_response [?a, ?l, ''   ''])"
  let ?pd = "[(''ID'', PStr ''P69905''), (''Name'', PStr ''HBA_HUMAN Reviewed; 142 AA.'')]"
  have h1: "status_code (?h (uniprot_url ''P69905'')) = 200"
    by (simp add: const_http_def ok_response_def)
  have h2: "py_splitlines (resp_text (?h (uniprot_url ''P69905''))) = [?a] @ ?l # ''   '' # []"
    by code_simp
  have h3: "startswith ''SQ'' ?l"
    by code_simp
  have h4: "list_all is_space ''   ''"
    by code_simp
  then have h4': "\<forall>c\<in>set ''   ''. is_space c"
    by (simp only: list_all_iff)
  have h5: "scan_before App [(''ID'', PStr ''P69905'')] [?a] (?l # ''   '' # []) = Inr ?pd"
    by code_simp
  note t = C9_blank_line_after_sq_raises
             [of ?h "''P69905''" "[?a]" ?l "''   ''" "[]" App, OF h1 h2 h3 h4']
  from t have c1: "py_split_ws ''   '' = []"
    by (elim conjE)
  from t have c2: "process_line App [(''ID'', PStr ''P69905'')] ?l [''   ''] = Inl IndexError"
    by (elim conjE allE)
  from t have "scan_before App [(''ID'', PStr ''P69905'')] [?a] (?l # ''   '' # []) = Inr ?pd \<longrightarrow>
      get_protein_data App ?h ''P69905'' = ([HttpGet (uniprot_url ''P69905'')], Inl IndexError)"
    by (elim conjE allE [where x = ?pd])
  from this h5 have c3: "get_protein_data App ?h ''P69905''
      = ([HttpGet (uniprot_url ''P69905'')], Inl IndexError)"
    by (rule mp)
  show ?thesis
    by (intro conjI) (rule h1, rule h2, rule h3, rule h4, rule h5, rule c1, rule c2, rule c3)
qed

subsection \<open>C10: the edges of the interaction network\<close>

text \<open>
  Claim C10, as stated, fails: the source tests the two values for truth only, so a
  name field that holds a number gives an edge that is not a pair of strings.
\<close>

theorem C10_counterexample:
  "get_ppi_network App
     (const_http \<lparr>status_code = 200, resp_text = [],
        resp_json = Some (PList
          [PDict [(''preferredName_A'', PInt 5), (''preferredName_B'', PStr ''x'')]])\<rparr>)
     ''P69905'' 9606
   = ([HttpGet (string_db_url ''P69905'' 9606)], Inr [(PInt 5, PStr ''x'')])"
  by code_simp

text \<open>
  Claim C10, amended. In the second variant, for a successful response whose JSON is an
  array of interaction records in which each of the two name fields, when present, holds
  a string or null, \<open>get_ppi_network\<close> returns, in the order of the entries, an edge for
  exactly the entries in which both \<open>preferredName_A\<close> and \<open>preferredName_B\<close> are present
  and non-empty; the other entries are skipped without an error, and every edge returned
  is a pair of non-empty strings.
\<close>

theorem C10_edges_are_named_pairs:
  assumes "status_code (http (string_db_url uid species)) = 200"
    and "resp_json (http (string_db_url uid species)) = Some (PList entries)"
    and "\<forall>e\<in>set entries. names_are_strings e"
  shows "get_ppi_network App http uid species =
           ([HttpGet (string_db_url uid species)], Inr (concat (map named_edge entries)))
         \<and> (\<forall>ab\<in>set (concat (map named_edge entries)).
               \<exists>s t. ab = (PStr s, PStr t) \<and> s \<noteq> [] \<and> t \<noteq> [])"
proof -
  from assms have "get_ppi_network App http uid species =
           ([HttpGet (string_db_url uid species)], Inr (concat (map named_edge entries)))"
    by (simp add: get_ppi_network_def Let_def eff_then_def eff_bind_def emit_def eff_lift_def
          err_bind_def ppi_loop_dicts)
  moreover have "\<exists>s t. ab = (PStr s, PStr t) \<and> s \<noteq> [] \<and> t \<noteq> []"
    if "ab \<in> set (concat (map named_edge entries))" for ab
  proof -
    from that obtain entry where "ab \<in> set (named_edge entry)" by auto
    moreover obtain a b where "ab = (a, b)" by (cases ab)
    ultimately show ?thesis using named_edge_strings [of a b entry] by simp
  qed
  ultimately show ?thesis by blast
qed

theorem C10_witness:
  "status_code
     (const_http \<lparr>status_code = 200, resp_text = [],
        resp_json = Some (PList
          [PDict [(''preferredName_A'', PStr ''HBA1''), (''preferredName_B'', PStr ''HBB''),
                  (''ncbiTaxonId'', PInt 9606)],
           PDict [(''preferredName_A'', PStr ''HBA1'')],
           PDict [(''preferredName_A'', PStr []), (''preferredName_B'', PStr ''HP'')],
           PDict [(''preferredName_A'', PStr ''HBA1''), (''preferredName_B'', PNone)]])\<rparr>
        (string_db_url ''P69905'' 9606)) = 200
   \<and> resp_json
        (const_http \<lparr>status_code = 200, resp_text = [],
           resp_json = Some (PList
             [PDict [(''preferredName_A'', PStr ''HBA1''), (''preferredName_B'', PStr ''HBB''),
                     (''ncbiTaxonId'', PInt 9606)],
              PDict [(''preferredName_A'', PStr ''HBA1'')],
              PDict [(''preferredName_A'', PStr []), (''preferredName_B'', PStr ''HP'')],
              PDict [(''preferredName_A'', PStr ''HBA1''), (''preferredName_B'', PNone)]])\<rparr>
           (string_db_url ''P69905'' 9606))
      = Some (PList
          [PDict [(''preferredName_A'', PStr ''HBA1''), (''preferredName_B'', PStr ''HBB''),
                  (''ncbiTaxonId'', PInt 9606)],
           PDict [(''preferredName_A'', PStr ''HBA1'')],
           PDict [(''preferredName_A'', PStr []), (''preferredName_B'', PStr ''HP'')],
           PDict [(''preferredName_A'', PStr ''HBA1''), (''preferredName_B'', PNone)]])
   \<and> list_all names_are_strings
        [PDict [(''preferredName_A'', PStr ''HBA1''), (''preferredName_B'', PStr ''HBB''),
                (''ncbiTaxonId'', PInt 9606)],
         PDict [(''preferredName_A'', PStr ''HBA1'')],
         PDict [(''preferredName_A'', PStr []), (''preferredName_B'', PStr ''HP'')],
         PDict [(''preferredName_A'', PStr ''HBA1''), (''preferredName_B'', PNone)]]
   \<and> get_ppi_network App
        (const_http \<lparr>status_code = 200, resp_text = [],
           resp_json = Some (PList
             [PDict [(''preferredName_A'', PStr ''HBA1''), (''preferredName_B'', PStr ''HBB''),
                     (''ncbiTaxonId'', PInt 9606)],
              PDict [(''preferredName_A'', PStr ''HBA1'')],
              PDict [(''preferredName_A'', PStr []), (''preferredName_B'', PStr ''HP'')],
              PDict [(''preferredName_A'', PStr ''HBA1''), (''preferredName_B'', PNone)]])\<rparr>)
        ''P69905'' 9606
      = ([HttpGet (string_db_url ''P69905'' 9606)], Inr [(PStr ''HBA1'', PStr ''HBB'')])"
proof -
  let ?es = "[PDict [(''preferredName_A'', PStr ''HBA1''), (''preferredName_B'', PStr ''HBB''),
                     (''ncbiTaxonId'', PInt 9606)],
              PDict [(''preferredName_A'', PStr ''HBA1'')],
              PDict [(''preferredName_A'', PStr []), (''preferredName_B'', PStr ''HP'')],
              PDict [(''preferredName_A'', PStr ''HBA1''), (''preferredName_B'', PNone)]]"
  let ?h = "const_http \<lparr>status_code = 200, resp_text = [], resp_json = Some (PList ?es)\<rparr>"
  have h1: "status_code (?h (string_db_url ''P69905'' 9606)) = 200"
    by (simp add: const_http_def)
  have h2: "resp_json (?h (string_db_url ''P69905'' 9606)) = Some (PList ?es)"
    by (simp add: const_http_def)
  have h3: "list_all names_are_strings ?es"
    by code_simp
  then have h3': "\<forall>e\<in>set ?es. names_are_strings e"
    by (simp only: list_all_iff)
  have v: "concat (map named_edge ?es) = [(PStr ''HBA1'', PStr ''HBB'')]"
    by code_simp
  note t = C10_edges_are_named_pairs [of ?h "''P69905''" 9606 ?es, OF h1 h2 h3']
  from t have "get_ppi_network App ?h ''P69905'' 9606
      = ([HttpGet (string_db_url ''P69905'' 9606)], Inr (concat (map named_edge ?es)))"
    by (elim conjE)
  then have c: "get_ppi_network App ?h ''P69905'' 9606
      = ([HttpGet (string_db_url ''P69905'' 9606)], Inr [(PStr ''HBA1'', PStr ''HBB'')])"
    by (simp only: v)
  show ?thesis
    by (intro conjI) (rule h1, rule h2, rule h3, rule c)
qed

end
